theory Spec2Isabelle
  imports Main "HOL-Library.Char_ord" "HOL-Library.List_Lexorder"
begin

section \<open>The persisted schema\<close>

text \<open>
  The four tables of the migration \<^verbatim>\<open>create_inventory_tables.sql\<close>, one record per row
  type, and \<^verbatim>\<open>auth.users\<close>, of which only the key is referenced. A \<^verbatim>\<open>uuid\<close> is
  kept as its text, a \<^verbatim>\<open>timestamptz\<close> as a count of clock ticks, a \<^verbatim>\<open>decimal(10,2)\<close>
  as its number of hundredths. A nullable column is an \<open>option\<close>.
\<close>

type_synonym uuid = string
type_synonym timestamptz = nat

datatype role = admin | staff

datatype stock_status = out_of_stock | low_stock | in_stock

datatype tx_type = IN | OUT

record profile =
  prof_id :: uuid
  prof_name :: string
  prof_role :: role
  prof_is_active :: "bool option"
  prof_created_at :: timestamptz
  prof_updated_at :: timestamptz

record category =
  cat_id :: uuid
  cat_name :: string
  cat_description :: "string option"
  cat_created_at :: timestamptz
  cat_updated_at :: timestamptz

record product =
  prod_id :: uuid
  prod_name :: string
  prod_sku :: string
  prod_category_id :: "uuid option"
  prod_price :: int
  prod_quantity :: int
  prod_status :: stock_status
  prod_description :: "string option"
  prod_created_at :: timestamptz
  prod_updated_at :: timestamptz

record stock_transaction =
  tx_id :: uuid
  tx_product_id :: uuid
  tx_user_id :: uuid
  tx_quantity :: int
  tx_kind :: tx_type
  tx_notes :: "string option"
  tx_created_at :: timestamptz

record db =
  auth_users :: "uuid list"
  profiles :: "profile list"
  categories :: "category list"
  products :: "product list"
  stock_transactions :: "stock_transaction list"

text \<open>
  A column of a JSON request body: left out, sent as \<^verbatim>\<open>null\<close>, or sent with a value.
\<close>

datatype 'a col = Absent | Null | Val 'a

datatype store_error =
    GeneratedColumn
  | OutOfRange
  | RlsViolation
  | NotNullViolation
  | UniqueViolation
  | ForeignKeyViolation

subsection \<open>Column types\<close>

definition int4_ok :: "int \<Rightarrow> bool" where
  "int4_ok v \<longleftrightarrow> - 2147483648 \<le> v \<and> v \<le> 2147483647"

definition decimal_10_2_ok :: "int \<Rightarrow> bool" where
  "decimal_10_2_ok v \<longleftrightarrow> - 10000000000 < v \<and> v < 10000000000"

definition col_ok :: "('a \<Rightarrow> bool) \<Rightarrow> 'a col \<Rightarrow> bool" where
  "col_ok ok c = (case c of Val v \<Rightarrow> ok v | _ \<Rightarrow> True)"

definition is_null :: "'a col \<Rightarrow> bool" where
  "is_null c = (case c of Null \<Rightarrow> True | _ \<Rightarrow> False)"

text \<open>The value an UPDATE leaves in a NOT NULL column, and in a nullable one.\<close>

definition assign :: "'a col \<Rightarrow> 'a \<Rightarrow> 'a" where
  "assign c old = (case c of Val v \<Rightarrow> v | _ \<Rightarrow> old)"

definition assign_opt :: "'a col \<Rightarrow> 'a option \<Rightarrow> 'a option" where
  "assign_opt c old = (case c of Absent \<Rightarrow> old | Null \<Rightarrow> None | Val v \<Rightarrow> Some v)"

subsection \<open>The generated status column\<close>

text \<open>
  \<^verbatim>\<open>status text GENERATED ALWAYS AS (CASE WHEN quantity = 0 THEN 'out_of_stock'
  WHEN quantity < 5 THEN 'low_stock' ELSE 'in_stock' END) STORED\<close>
\<close>

definition classify :: "int \<Rightarrow> stock_status" where
  "classify quantity =
     (if quantity = 0 then out_of_stock
      else if quantity < 5 then low_stock
      else in_stock)"

subsection \<open>Row-level security predicates\<close>

text \<open>
  \<^verbatim>\<open>EXISTS (SELECT 1 FROM profiles WHERE profiles.id = auth.uid() AND profiles.role = 'admin')\<close>
  and the same with \<^verbatim>\<open>profiles.is_active = true\<close>; \<open>uid\<close> is \<^verbatim>\<open>auth.uid()\<close>. A null
  \<^verbatim>\<open>is_active\<close> does not compare equal to true.
\<close>

definition is_admin :: "uuid \<Rightarrow> db \<Rightarrow> bool" where
  "is_admin uid d = list_ex (\<lambda>r. prof_id r = uid \<and> prof_role r = admin) (profiles d)"

definition is_active_user :: "uuid \<Rightarrow> db \<Rightarrow> bool" where
  "is_active_user uid d =
     list_ex (\<lambda>r. prof_id r = uid \<and> prof_is_active r = Some True) (profiles d)"

section \<open>The store: requests as the relational engine answers them\<close>

text \<open>
  Every request is made by an authenticated caller \<open>uid\<close> at server time \<open>now\<close>. A
  request that breaks a constraint or an INSERT policy's \<^verbatim>\<open>WITH CHECK\<close> is an error and
  changes nothing. An UPDATE or DELETE sees only the rows its policy's \<^verbatim>\<open>USING\<close>
  admits: with none admitted it changes nothing and reports no error. \<open>new_id\<close> is the
  value \<^verbatim>\<open>gen_random_uuid()\<close> draws.
\<close>

definition the_val :: "'a col \<Rightarrow> 'a option" where
  "the_val c = (case c of Val v \<Rightarrow> Some v | _ \<Rightarrow> None)"

definition with_default :: "'a \<Rightarrow> 'a col \<Rightarrow> 'a option" where
  "with_default dflt c = (case c of Absent \<Rightarrow> Some dflt | Null \<Rightarrow> None | Val v \<Rightarrow> Some v)"

definition fk_ok :: "uuid col \<Rightarrow> uuid list \<Rightarrow> bool" where
  "fk_ok c keys = (case c of Val k \<Rightarrow> k \<in> set keys | _ \<Rightarrow> True)"

subsection \<open>products\<close>

record product_cols =
  c_name :: "string col"
  c_sku :: "string col"
  c_category_id :: "uuid col"
  c_price :: "int col"
  c_quantity :: "int col"
  c_status :: "stock_status col"
  c_description :: "string col"

definition product_cols_typed :: "product_cols \<Rightarrow> bool" where
  "product_cols_typed c \<longleftrightarrow> col_ok int4_ok (c_quantity c) \<and> col_ok decimal_10_2_ok (c_price c)"

text \<open>Policy "Staff and admins can insert products", defaults and constraints of the table.\<close>

definition insert_into_products ::
    "uuid \<Rightarrow> timestamptz \<Rightarrow> uuid \<Rightarrow> product_cols \<Rightarrow> db \<Rightarrow> store_error + db" where
  "insert_into_products uid now new_id c d =
     (if c_status c \<noteq> Absent then Inl GeneratedColumn
      else if \<not> product_cols_typed c then Inl OutOfRange
      else if \<not> is_active_user uid d then Inl RlsViolation
      else
        (case (the_val (c_name c), the_val (c_sku c),
               with_default 0 (c_price c), with_default 0 (c_quantity c)) of
           (Some n, Some s, Some pr, Some q) \<Rightarrow>
             if new_id \<in> set (map prod_id (products d)) \<or> s \<in> set (map prod_sku (products d))
             then Inl UniqueViolation
             else if \<not> fk_ok (c_category_id c) (map cat_id (categories d))
             then Inl ForeignKeyViolation
             else Inr (d\<lparr>products := products d @
               [\<lparr>prod_id = new_id, prod_name = n, prod_sku = s,
                 prod_category_id = the_val (c_category_id c),
                 prod_price = pr, prod_quantity = q, prod_status = classify q,
                 prod_description = assign_opt (c_description c) (Some []),
                 prod_created_at = now, prod_updated_at = now\<rparr>]\<rparr>)
         | _ \<Rightarrow> Inl NotNullViolation))"

text \<open>
  What an UPDATE does to one row of products: the sent columns are stored, the
  generated column is computed again from the quantity, and the trigger
  \<^verbatim>\<open>update_products_updated_at\<close> stamps the row.
\<close>

definition product_row_update :: "timestamptz \<Rightarrow> product_cols \<Rightarrow> product \<Rightarrow> product" where
  "product_row_update now c r =
     (let q = assign (c_quantity c) (prod_quantity r) in
      r\<lparr>prod_name := assign (c_name c) (prod_name r),
        prod_sku := assign (c_sku c) (prod_sku r),
        prod_category_id := assign_opt (c_category_id c) (prod_category_id r),
        prod_price := assign (c_price c) (prod_price r),
        prod_quantity := q,
        prod_status := classify q,
        prod_description := assign_opt (c_description c) (prod_description r),
        prod_updated_at := now\<rparr>)"

text \<open>Policy "Staff and admins can update products"; the request is \<^verbatim>\<open>.eq('id', pid)\<close>.\<close>

definition update_products ::
    "uuid \<Rightarrow> timestamptz \<Rightarrow> uuid \<Rightarrow> product_cols \<Rightarrow> db \<Rightarrow> store_error + db" where
  "update_products uid now pid c d =
     (if c_status c \<noteq> Absent then Inl GeneratedColumn
      else if \<not> product_cols_typed c then Inl OutOfRange
      else if \<not> is_active_user uid d then Inr d
      else if pid \<notin> set (map prod_id (products d)) then Inr d
      else if is_null (c_name c) \<or> is_null (c_sku c) \<or> is_null (c_price c) \<or> is_null (c_quantity c)
      then Inl NotNullViolation
      else if (case c_sku c of
                 Val s \<Rightarrow> list_ex (\<lambda>r. prod_id r \<noteq> pid \<and> prod_sku r = s) (products d)
               | _ \<Rightarrow> False)
      then Inl UniqueViolation
      else if \<not> fk_ok (c_category_id c) (map cat_id (categories d)) then Inl ForeignKeyViolation
      else Inr (d\<lparr>products :=
        map (\<lambda>r. if prod_id r = pid then product_row_update now c r else r) (products d)\<rparr>))"

text \<open>
  Policy "Admins can delete products". \<^verbatim>\<open>stock_transactions.product_id\<close> references
  products \<^verbatim>\<open>ON DELETE CASCADE\<close>.
\<close>

definition delete_from_products :: "uuid \<Rightarrow> uuid \<Rightarrow> db \<Rightarrow> store_error + db" where
  "delete_from_products uid pid d =
     (if is_admin uid d \<and> pid \<in> set (map prod_id (products d))
      then Inr (d\<lparr>products := filter (\<lambda>r. prod_id r \<noteq> pid) (products d),
                  stock_transactions :=
                    filter (\<lambda>t. tx_product_id t \<noteq> pid) (stock_transactions d)\<rparr>)
      else Inr d)"

subsection \<open>stock_transactions\<close>

record stock_transaction_cols =
  s_product_id :: uuid
  s_user_id :: uuid
  s_quantity :: "int col"
  s_type :: tx_type
  s_notes :: string

text \<open>Policy "Active staff can insert stock transactions"; there is no other write policy.\<close>

definition insert_into_stock_transactions ::
    "uuid \<Rightarrow> timestamptz \<Rightarrow> uuid \<Rightarrow> stock_transaction_cols \<Rightarrow> db \<Rightarrow> store_error + db" where
  "insert_into_stock_transactions uid now new_id c d =
     (if \<not> col_ok int4_ok (s_quantity c) then Inl OutOfRange
      else if \<not> is_active_user uid d then Inl RlsViolation
      else
        (case the_val (s_quantity c) of
           None \<Rightarrow> Inl NotNullViolation
         | Some q \<Rightarrow>
             if new_id \<in> set (map tx_id (stock_transactions d)) then Inl UniqueViolation
             else if s_product_id c \<notin> set (map prod_id (products d))
                     \<or> s_user_id c \<notin> set (auth_users d)
             then Inl ForeignKeyViolation
             else Inr (d\<lparr>stock_transactions := stock_transactions d @
               [\<lparr>tx_id = new_id, tx_product_id = s_product_id c, tx_user_id = s_user_id c,
                 tx_quantity = q, tx_kind = s_type c, tx_notes = Some (s_notes c),
                 tx_created_at = now\<rparr>]\<rparr>)))"

text \<open>
  Row-level security is enabled on the table and no policy is declared FOR UPDATE or
  FOR DELETE: such a request sees no row.
\<close>

definition update_stock_transactions ::
    "uuid \<Rightarrow> uuid \<Rightarrow> stock_transaction_cols \<Rightarrow> db \<Rightarrow> store_error + db" where
  "update_stock_transactions uid tid c d =
     (if \<not> col_ok int4_ok (s_quantity c) then Inl OutOfRange else Inr d)"

definition delete_from_stock_transactions :: "uuid \<Rightarrow> uuid \<Rightarrow> db \<Rightarrow> store_error + db" where
  "delete_from_stock_transactions uid tid d = Inr d"

subsection \<open>categories\<close>

record category_cols =
  k_name :: "string col"
  k_description :: "string col"

definition insert_into_categories ::
    "uuid \<Rightarrow> timestamptz \<Rightarrow> uuid \<Rightarrow> category_cols \<Rightarrow> db \<Rightarrow> store_error + db" where
  "insert_into_categories uid now new_id c d =
     (if \<not> is_admin uid d then Inl RlsViolation
      else
        (case the_val (k_name c) of
           None \<Rightarrow> Inl NotNullViolation
         | Some n \<Rightarrow>
             if new_id \<in> set (map cat_id (categories d)) \<or> n \<in> set (map cat_name (categories d))
             then Inl UniqueViolation
             else Inr (d\<lparr>categories := categories d @
               [\<lparr>cat_id = new_id, cat_name = n,
                 cat_description = assign_opt (k_description c) (Some []),
                 cat_created_at = now, cat_updated_at = now\<rparr>]\<rparr>)))"

definition update_categories ::
    "uuid \<Rightarrow> timestamptz \<Rightarrow> uuid \<Rightarrow> category_cols \<Rightarrow> db \<Rightarrow> store_error + db" where
  "update_categories uid now cid c d =
     (if \<not> is_admin uid d then Inr d
      else if cid \<notin> set (map cat_id (categories d)) then Inr d
      else if is_null (k_name c) then Inl NotNullViolation
      else if (case k_name c of
                 Val n \<Rightarrow> list_ex (\<lambda>r. cat_id r \<noteq> cid \<and> cat_name r = n) (categories d)
               | _ \<Rightarrow> False)
      then Inl UniqueViolation
      else Inr (d\<lparr>categories :=
        map (\<lambda>r. if cat_id r = cid
                  then r\<lparr>cat_name := assign (k_name c) (cat_name r),
                         cat_description := assign_opt (k_description c) (cat_description r),
                         cat_updated_at := now\<rparr>
                  else r) (categories d)\<rparr>))"

text \<open>
  Policy "Admins can delete categories". \<^verbatim>\<open>products.category_id\<close> references categories
  \<^verbatim>\<open>ON DELETE SET NULL\<close>: the engine updates the referencing rows of products, which
  is an UPDATE of those rows like any other.
\<close>

definition delete_from_categories :: "uuid \<Rightarrow> timestamptz \<Rightarrow> uuid \<Rightarrow> db \<Rightarrow> store_error + db" where
  "delete_from_categories uid now cid d =
     (if is_admin uid d \<and> cid \<in> set (map cat_id (categories d))
      then Inr (d\<lparr>categories := filter (\<lambda>r. cat_id r \<noteq> cid) (categories d),
                  products :=
                    map (\<lambda>r. if prod_category_id r = Some cid
                              then product_row_update now
                                     \<lparr>c_name = Absent, c_sku = Absent, c_category_id = Null,
                                      c_price = Absent, c_quantity = Absent, c_status = Absent,
                                      c_description = Absent\<rparr> r
                              else r) (products d)\<rparr>)
      else Inr d)"

subsection \<open>profiles and accounts\<close>

record profile_cols =
  u_name :: "string col"
  u_role :: "role col"
  u_is_active :: "bool col"

text \<open>Policies "Users can update own profile" and "Admins can update any profile".\<close>

definition update_profiles ::
    "uuid \<Rightarrow> timestamptz \<Rightarrow> uuid \<Rightarrow> profile_cols \<Rightarrow> db \<Rightarrow> store_error + db" where
  "update_profiles uid now target c d =
     (if \<not> (uid = target \<or> is_admin uid d) then Inr d
      else if target \<notin> set (map prof_id (profiles d)) then Inr d
      else if is_null (u_name c) \<or> is_null (u_role c) then Inl NotNullViolation
      else Inr (d\<lparr>profiles :=
        map (\<lambda>r. if prof_id r = target
                  then r\<lparr>prof_name := assign (u_name c) (prof_name r),
                         prof_role := assign (u_role c) (prof_role r),
                         prof_is_active := assign_opt (u_is_active c) (prof_is_active r),
                         prof_updated_at := now\<rparr>
                  else r) (profiles d)\<rparr>))"

text \<open>Policy "Admins can insert profiles"; the key references \<^verbatim>\<open>auth.users\<close>.\<close>

definition insert_into_profiles ::
    "uuid \<Rightarrow> timestamptz \<Rightarrow> uuid \<Rightarrow> profile_cols \<Rightarrow> db \<Rightarrow> store_error + db" where
  "insert_into_profiles uid now new_id c d =
     (if \<not> is_admin uid d then Inl RlsViolation
      else
        (case (the_val (u_name c), with_default staff (u_role c)) of
           (Some n, Some ro) \<Rightarrow>
             if new_id \<in> set (map prof_id (profiles d)) then Inl UniqueViolation
             else if new_id \<notin> set (auth_users d) then Inl ForeignKeyViolation
             else Inr (d\<lparr>profiles := profiles d @
               [\<lparr>prof_id = new_id, prof_name = n, prof_role = ro,
                 prof_is_active = assign_opt (u_is_active c) (Some True),
                 prof_created_at = now, prof_updated_at = now\<rparr>]\<rparr>)
         | _ \<Rightarrow> Inl NotNullViolation))"

text \<open>
  Registration: a row of \<^verbatim>\<open>auth.users\<close> and, by the trigger \<^verbatim>\<open>on_auth_user_created\<close>
  (\<^verbatim>\<open>handle_new_user\<close>), its profile with role staff and the default active flag.
  \<open>meta_name\<close> is \<^verbatim>\<open>raw_user_meta_data->>'name'\<close>.
\<close>

definition handle_new_user :: "timestamptz \<Rightarrow> uuid \<Rightarrow> string option \<Rightarrow> db \<Rightarrow> store_error + db" where
  "handle_new_user now new_id meta_name d =
     (if new_id \<in> set (auth_users d) \<or> new_id \<in> set (map prof_id (profiles d))
      then Inl UniqueViolation
      else Inr (d\<lparr>auth_users := auth_users d @ [new_id],
                  profiles := profiles d @
                    [\<lparr>prof_id = new_id,
                      prof_name = (case meta_name of None \<Rightarrow> ''User'' | Some n \<Rightarrow> n),
                      prof_role = staff, prof_is_active = Some True,
                      prof_created_at = now, prof_updated_at = now\<rparr>]\<rparr>))"

text \<open>
  Removal of an account: \<^verbatim>\<open>profiles.id\<close> and \<^verbatim>\<open>stock_transactions.user_id\<close> reference
  \<^verbatim>\<open>auth.users\<close> \<^verbatim>\<open>ON DELETE CASCADE\<close>.
\<close>

definition delete_from_auth_users :: "uuid \<Rightarrow> db \<Rightarrow> store_error + db" where
  "delete_from_auth_users target d =
     (if target \<in> set (auth_users d)
      then Inr (d\<lparr>auth_users := filter (\<lambda>u. u \<noteq> target) (auth_users d),
                  profiles := filter (\<lambda>r. prof_id r \<noteq> target) (profiles d),
                  stock_transactions :=
                    filter (\<lambda>t. tx_user_id t \<noteq> target) (stock_transactions d)\<rparr>)
      else Inr d)"

subsection \<open>Requests and reachable states\<close>

datatype request =
    ProductsInsert uuid uuid product_cols
  | ProductsUpdate uuid uuid product_cols
  | ProductsDelete uuid uuid
  | StockTransactionsInsert uuid uuid stock_transaction_cols
  | StockTransactionsUpdate uuid uuid stock_transaction_cols
  | StockTransactionsDelete uuid uuid
  | CategoriesInsert uuid uuid category_cols
  | CategoriesUpdate uuid uuid category_cols
  | CategoriesDelete uuid uuid
  | ProfilesInsert uuid uuid profile_cols
  | ProfilesUpdate uuid uuid profile_cols
  | SignUp uuid "string option"
  | AccountDelete uuid

fun exec :: "timestamptz \<Rightarrow> request \<Rightarrow> db \<Rightarrow> store_error + db" where
  "exec now (ProductsInsert uid new_id c) d = insert_into_products uid now new_id c d"
| "exec now (ProductsUpdate uid pid c) d = update_products uid now pid c d"
| "exec now (ProductsDelete uid pid) d = delete_from_products uid pid d"
| "exec now (StockTransactionsInsert uid new_id c) d = insert_into_stock_transactions uid now new_id c d"
| "exec now (StockTransactionsUpdate uid tid c) d = update_stock_transactions uid tid c d"
| "exec now (StockTransactionsDelete uid tid) d = delete_from_stock_transactions uid tid d"
| "exec now (CategoriesInsert uid new_id c) d = insert_into_categories uid now new_id c d"
| "exec now (CategoriesUpdate uid cid c) d = update_categories uid now cid c d"
| "exec now (CategoriesDelete uid cid) d = delete_from_categories uid now cid d"
| "exec now (ProfilesInsert uid new_id c) d = insert_into_profiles uid now new_id c d"
| "exec now (ProfilesUpdate uid target c) d = update_profiles uid now target c d"
| "exec now (SignUp new_id meta_name) d = handle_new_user now new_id meta_name d"
| "exec now (AccountDelete target) d = delete_from_auth_users target d"

text \<open>
  The state the migration leaves: empty tables and the five sample categories, with
  the keys \<open>ids\<close> drawn for them.
\<close>

definition sample_categories :: "(string \<times> string) list" where
  "sample_categories =
     [(''Electronics'', ''Electronic devices and accessories''),
      (''Furniture'', ''Office and home furniture''),
      (''Stationery'', ''Office supplies and stationery''),
      (''Hardware'', ''Tools and hardware supplies''),
      (''Consumables'', ''Consumable items and supplies'')]"

definition init_db :: "uuid list \<Rightarrow> timestamptz \<Rightarrow> db" where
  "init_db ids now =
     \<lparr>auth_users = [], profiles = [],
      categories = map (\<lambda>(i, (n, ds)).
          \<lparr>cat_id = i, cat_name = n, cat_description = Some ds,
           cat_created_at = now, cat_updated_at = now\<rparr>) (zip ids sample_categories),
      products = [], stock_transactions = []\<rparr>"

inductive reachable :: "db \<Rightarrow> bool" where
  reachable_init: "length ids = 5 \<Longrightarrow> distinct ids \<Longrightarrow> reachable (init_db ids now)"
| reachable_step: "reachable d \<Longrightarrow> exec now req d = Inr d' \<Longrightarrow> reachable d'"

section \<open>The client\<close>

subsection \<open>Numbers read from form fields\<close>

text \<open>
  A JavaScript number that \<^verbatim>\<open>parseInt\<close> returns is an integer or NaN (\<open>None\<close>). The
  integers are kept exact: the store refuses every value outside the 32-bit range of
  its integer columns, and on the sums and differences of such values doubles are
  exact. A comparison with NaN is false, and NaN is sent in a JSON body as
  \<^verbatim>\<open>null\<close>.
\<close>

type_synonym js_number = "int option"

definition js_lt :: "int \<Rightarrow> js_number \<Rightarrow> bool" where
  "js_lt a b = (case b of None \<Rightarrow> False | Some q \<Rightarrow> a < q)"

definition js_add :: "int \<Rightarrow> js_number \<Rightarrow> js_number" where
  "js_add a b = map_option (\<lambda>q. a + q) b"

definition js_sub :: "int \<Rightarrow> js_number \<Rightarrow> js_number" where
  "js_sub a b = map_option (\<lambda>q. a - q) b"

definition json_number :: "js_number \<Rightarrow> int col" where
  "json_number x = (case x of None \<Rightarrow> Null | Some v \<Rightarrow> Val v)"

text \<open>
  \<^verbatim>\<open>parseInt(string)\<close> with no radix, on ASCII text: leading white space is skipped, a
  sign is read, \<^verbatim>\<open>0x\<close> switches to radix 16, and the longest run of digits is the
  value; with no digit the result is NaN.
\<close>

definition StrWhiteSpaceChar :: "char \<Rightarrow> bool" where
  "StrWhiteSpaceChar c \<longleftrightarrow> c \<in> set [CHR 0x09, CHR 0x0A, CHR 0x0B, CHR 0x0C, CHR 0x0D, CHR 0x20]"

definition radix_digit :: "int \<Rightarrow> char \<Rightarrow> int option" where
  "radix_digit R c =
     (let n = (of_char c :: int);
          v = (if 48 \<le> n \<and> n \<le> 57 then Some (n - 48)
               else if 97 \<le> n \<and> n \<le> 122 then Some (n - 87)
               else if 65 \<le> n \<and> n \<le> 90 then Some (n - 55)
               else None)
      in case v of None \<Rightarrow> None | Some k \<Rightarrow> if k < R then Some k else None)"

fun digits_value :: "int \<Rightarrow> int \<Rightarrow> string \<Rightarrow> int" where
  "digits_value R acc [] = acc"
| "digits_value R acc (c # cs) =
     (case radix_digit R c of
        None \<Rightarrow> acc
      | Some k \<Rightarrow> digits_value R (acc * R + k) cs)"

definition parse_digits :: "int \<Rightarrow> string \<Rightarrow> int option" where
  "parse_digits R Z =
     (case Z of
        [] \<Rightarrow> None
      | c # cs \<Rightarrow> (case radix_digit R c of None \<Rightarrow> None | Some k \<Rightarrow> Some (digits_value R 0 Z)))"

definition strip_prefix :: "string \<Rightarrow> int \<times> string" where
  "strip_prefix S =
     (if take 2 S = ''0x'' \<or> take 2 S = ''0X'' then (16, drop 2 S) else (10, S))"

definition parseInt :: "string \<Rightarrow> js_number" where
  "parseInt inputString =
     (let S = dropWhile StrWhiteSpaceChar inputString;
          (sign, S') = (case S of
                          c # cs \<Rightarrow> if c = CHR ''-'' then (- 1, cs)
                                    else if c = CHR ''+'' then (1, cs) else (1, S)
                        | [] \<Rightarrow> (1, S));
          (R, Z) = strip_prefix S'
      in map_option (\<lambda>n. sign * n) (parse_digits R Z))"

subsection \<open>StockModal\<close>

record stock_form =
  f_product_id :: string
  f_type :: tx_type
  f_quantity :: string
  f_notes :: string

datatype app_error = ProductNotFound | InsufficientStock | StoreFailure store_error

datatype outcome = Closed | Failed app_error

text \<open>
  \<^verbatim>\<open>handleSubmit\<close> of the stock form. \<open>products_prop\<close> is the \<^verbatim>\<open>products\<close> property the
  page hands to the form, \<open>userId\<close> the signed-in user, who is also the caller of the two
  store requests, made at server times \<open>t1\<close> and \<open>t2\<close>. \<open>Failed\<close> is the \<^verbatim>\<open>catch\<close> branch
  (the error is shown and the form stays open), \<open>Closed\<close> is \<^verbatim>\<open>onClose()\<close>. The state
  returned is the store after the requests that were made; no request of another
  client is placed between the two.
\<close>

definition StockModal_handleSubmit ::
    "product list \<Rightarrow> uuid \<Rightarrow> timestamptz \<Rightarrow> timestamptz \<Rightarrow> uuid \<Rightarrow> stock_form \<Rightarrow> db
      \<Rightarrow> outcome \<times> db" where
  "StockModal_handleSubmit products_prop userId t1 t2 new_id formData d =
     (let quantity = parseInt (f_quantity formData) in
      case find (\<lambda>p. prod_id p = f_product_id formData) products_prop of
        None \<Rightarrow> (Failed ProductNotFound, d)
      | Some product \<Rightarrow>
          if f_type formData = OUT \<and> js_lt (prod_quantity product) quantity
          then (Failed InsufficientStock, d)
          else
            (case insert_into_stock_transactions userId t1 new_id
                    \<lparr>s_product_id = f_product_id formData, s_user_id = userId,
                     s_quantity = json_number quantity, s_type = f_type formData,
                     s_notes = f_notes formData\<rparr> d of
               Inl txError \<Rightarrow> (Failed (StoreFailure txError), d)
             | Inr d1 \<Rightarrow>
                 let newQuantity =
                       (if f_type formData = IN then js_add (prod_quantity product) quantity
                        else js_sub (prod_quantity product) quantity)
                 in
                   (case update_products userId t2 (f_product_id formData)
                           \<lparr>c_name = Absent, c_sku = Absent, c_category_id = Absent,
                            c_price = Absent, c_quantity = json_number newQuantity,
                            c_status = Absent, c_description = Absent\<rparr> d1 of
                      Inl updateError \<Rightarrow> (Failed (StoreFailure updateError), d1)
                    | Inr d2 \<Rightarrow> (Closed, d2))))"

subsection \<open>The StockTransactions page\<close>

text \<open>
  \<^verbatim>\<open>loadProducts\<close>: \<^verbatim>\<open>select('*').order('name')\<close>; every authenticated user may read.
  It runs when the page is mounted and in \<^verbatim>\<open>handleModalClose\<close>.
\<close>

definition loadProducts :: "db \<Rightarrow> product list" where
  "loadProducts d = sort_key prod_name (products d)"

text \<open>
  One stock movement made through the page: the form is submitted with the list the
  page holds; when it closes, the page loads the list again.
\<close>

definition recordMovement ::
    "uuid \<Rightarrow> timestamptz \<Rightarrow> timestamptz \<Rightarrow> uuid \<Rightarrow> stock_form \<Rightarrow> product list \<times> db
      \<Rightarrow> outcome \<times> product list \<times> db" where
  "recordMovement userId t1 t2 new_id formData page =
     (case StockModal_handleSubmit (fst page) userId t1 t2 new_id formData (snd page) of
        (Closed, d') \<Rightarrow> (Closed, loadProducts d', d')
      | (Failed e, d') \<Rightarrow> (Failed e, fst page, d'))"

subsection \<open>ProductModal\<close>

text \<open>
  The price field is read with \<^verbatim>\<open>parseFloat\<close>; the form keeps here what the column
  stores of it, in hundredths, or NaN.
\<close>

record product_form =
  pf_name :: string
  pf_sku :: string
  pf_category_id :: string
  pf_price :: js_number
  pf_quantity :: string
  pf_description :: string

definition payload :: "product_form \<Rightarrow> product_cols" where
  "payload formData =
     \<lparr>c_name = Val (pf_name formData),
      c_sku = Val (pf_sku formData),
      c_category_id = (if pf_category_id formData = [] then Null else Val (pf_category_id formData)),
      c_price = json_number (pf_price formData),
      c_quantity = json_number (parseInt (pf_quantity formData)),
      c_status = Absent,
      c_description = Val (pf_description formData)\<rparr>"

text \<open>\<open>product\<close> is the row being edited, or \<open>None\<close> for a new product.\<close>

definition ProductModal_handleSubmit ::
    "product option \<Rightarrow> uuid \<Rightarrow> timestamptz \<Rightarrow> uuid \<Rightarrow> product_form \<Rightarrow> db \<Rightarrow> outcome \<times> db" where
  "ProductModal_handleSubmit product uid now new_id formData d =
     (case (case product of
              Some p \<Rightarrow> update_products uid now (prod_id p) (payload formData) d
            | None \<Rightarrow> insert_into_products uid now new_id (payload formData) d) of
        Inl error \<Rightarrow> (Failed (StoreFailure error), d)
      | Inr d' \<Rightarrow> (Closed, d'))"

subsection \<open>The Categories and Products pages\<close>

text \<open>
  \<^verbatim>\<open>handleDelete\<close>: nothing is asked of the store unless the user confirms; an error
  is shown in an alert.
\<close>

definition Categories_handleDelete ::
    "bool \<Rightarrow> uuid \<Rightarrow> timestamptz \<Rightarrow> uuid \<Rightarrow> db \<Rightarrow> store_error option \<times> db" where
  "Categories_handleDelete confirmed uid now cid d =
     (if \<not> confirmed then (None, d)
      else case delete_from_categories uid now cid d of
             Inl error \<Rightarrow> (Some error, d)
           | Inr d' \<Rightarrow> (None, d'))"

definition Products_handleDelete ::
    "bool \<Rightarrow> uuid \<Rightarrow> uuid \<Rightarrow> db \<Rightarrow> store_error option \<times> db" where
  "Products_handleDelete confirmed uid pid d =
     (if \<not> confirmed then (None, d)
      else case delete_from_products uid pid d of
             Inl error \<Rightarrow> (Some error, d)
           | Inr d' \<Rightarrow> (None, d'))"

subsection \<open>Sample data\<close>

text \<open>
  A store with a staff user, an admin, one category and one product holding \<open>q\<close>
  units, and a stock form for that product.
\<close>

definition demo_staff :: profile where
  "demo_staff = \<lparr>prof_id = ''u-staff'', prof_name = ''Sam'', prof_role = staff,
     prof_is_active = Some True, prof_created_at = 1, prof_updated_at = 1\<rparr>"

definition demo_admin :: profile where
  "demo_admin = \<lparr>prof_id = ''u-admin'', prof_name = ''Ada'', prof_role = admin,
     prof_is_active = Some True, prof_created_at = 1, prof_updated_at = 1\<rparr>"

definition demo_category :: category where
  "demo_category = \<lparr>cat_id = ''c-1'', cat_name = ''Hardware'',
     cat_description = Some ''Tools and hardware supplies'',
     cat_created_at = 0, cat_updated_at = 0\<rparr>"

definition demo_product :: "int \<Rightarrow> product" where
  "demo_product q = \<lparr>prod_id = ''p-1'', prod_name = ''Hammer'', prod_sku = ''HW-1'',
     prod_category_id = Some ''c-1'', prod_price = 1250, prod_quantity = q,
     prod_status = classify q, prod_description = Some [],
     prod_created_at = 2, prod_updated_at = 2\<rparr>"

definition demo_db :: "int \<Rightarrow> db" where
  "demo_db q = \<lparr>auth_users = [''u-staff'', ''u-admin''], profiles = [demo_staff, demo_admin],
     categories = [demo_category], products = [demo_product q], stock_transactions = []\<rparr>"

definition demo_form :: "tx_type \<Rightarrow> string \<Rightarrow> stock_form" where
  "demo_form ty qs = \<lparr>f_product_id = ''p-1'', f_type = ty, f_quantity = qs, f_notes = ''note''\<rparr>"

definition demo_ledger_row :: "uuid \<Rightarrow> tx_type \<Rightarrow> int \<Rightarrow> timestamptz \<Rightarrow> stock_transaction" where
  "demo_ledger_row i ty q t = \<lparr>tx_id = i, tx_product_id = ''p-1'', tx_user_id = ''u-staff'',
     tx_quantity = q, tx_kind = ty, tx_notes = Some ''note'', tx_created_at = t\<rparr>"

definition demo_db_moved :: "stock_transaction list \<Rightarrow> int \<Rightarrow> timestamptz \<Rightarrow> db" where
  "demo_db_moved ledger q t =
     (demo_db q)\<lparr>stock_transactions := ledger,
                  products := [(demo_product q)\<lparr>prod_updated_at := t\<rparr>]\<rparr>"

definition demo_product_form :: "string \<Rightarrow> product_form" where
  "demo_product_form qs = \<lparr>pf_name = ''Hammer'', pf_sku = ''HW-1'', pf_category_id = ''c-1'',
     pf_price = Some 1250, pf_quantity = qs, pf_description = []\<rparr>"

text \<open>A state reached from the migration by a registration and a product insert.\<close>

definition demo_signed_up :: db where
  "demo_signed_up =
     \<lparr>auth_users = [''u-staff''], profiles = [demo_staff],
      categories = categories (init_db [''c-1'', ''c-2'', ''c-3'', ''c-4'', ''c-5''] 0),
      products = [], stock_transactions = []\<rparr>"

definition demo_reached :: db where
  "demo_reached = demo_signed_up\<lparr>products := [demo_product 3]\<rparr>"

definition demo_product_cols :: "stock_status col \<Rightarrow> product_cols" where
  "demo_product_cols st =
     \<lparr>c_name = Val ''Hammer'', c_sku = Val ''HW-1'', c_category_id = Val ''c-1'',
      c_price = Val 1250, c_quantity = Val 3, c_status = st, c_description = Val []\<rparr>"

text \<open>
  The same store with the staff user switched off, a form for a new product, and a
  ledger request.
\<close>

definition demo_db_inactive :: db where
  "demo_db_inactive =
     (demo_db 3)\<lparr>profiles := [demo_staff\<lparr>prof_is_active := Some False\<rparr>, demo_admin]\<rparr>"

definition demo_new_product_form :: product_form where
  "demo_new_product_form = \<lparr>pf_name = ''Saw'', pf_sku = ''HW-2'', pf_category_id = ''c-1'',
     pf_price = Some 1999, pf_quantity = ''4'', pf_description = ''Hand saw''\<rparr>"

definition demo_tx_cols :: stock_transaction_cols where
  "demo_tx_cols = \<lparr>s_product_id = ''p-1'', s_user_id = ''u-staff'', s_quantity = Val 5,
     s_type = IN, s_notes = ''note''\<rparr>"

section \<open>Properties\<close>

lemmas demo_defs =
  demo_staff_def demo_admin_def demo_category_def demo_product_def demo_db_def

lemmas demo_move_defs = demo_form_def demo_ledger_row_def demo_db_moved_def

lemma parseInt_5: "parseInt ''5'' = Some 5"
  by code_simp

subsection \<open>What the stock form does to the store\<close>

lemma product_row_update_quantity:
  "product_row_update now \<lparr>c_name = Absent, c_sku = Absent, c_category_id = Absent,
       c_price = Absent, c_quantity = Val v, c_status = Absent, c_description = Absent\<rparr> r
   = r\<lparr>prod_quantity := v, prod_status := classify v, prod_updated_at := now\<rparr>"
  by (simp add: product_row_update_def assign_def assign_opt_def)

lemma insert_into_stock_transactions_InrD:
  assumes "insert_into_stock_transactions uid now nid c d = Inr d1"
  shows "is_active_user uid d"
    and "nid \<notin> tx_id ` set (stock_transactions d)"
    and "s_product_id c \<in> prod_id ` set (products d)"
    and "s_user_id c \<in> set (auth_users d)"
    and "\<exists>q. the_val (s_quantity c) = Some q \<and> col_ok int4_ok (s_quantity c)
          \<and> d1 = d\<lparr>stock_transactions := stock_transactions d @
               [\<lparr>tx_id = nid, tx_product_id = s_product_id c, tx_user_id = s_user_id c,
                 tx_quantity = q, tx_kind = s_type c, tx_notes = Some (s_notes c),
                 tx_created_at = now\<rparr>]\<rparr>"
  using assms
  by (auto simp: insert_into_stock_transactions_def split: if_splits option.splits)

lemma is_active_user_cong:
  "profiles d1 = profiles d \<Longrightarrow> is_active_user uid d1 = is_active_user uid d"
  by (simp add: is_active_user_def)

lemma update_products_quantity:
  assumes "is_active_user uid d" and "pid \<in> prod_id ` set (products d)" and "int4_ok v"
  shows "update_products uid now pid
           \<lparr>c_name = Absent, c_sku = Absent, c_category_id = Absent,
            c_price = Absent, c_quantity = Val v, c_status = Absent, c_description = Absent\<rparr> d
         = Inr (d\<lparr>products := map (\<lambda>r. if prod_id r = pid
              then r\<lparr>prod_quantity := v, prod_status := classify v, prod_updated_at := now\<rparr>
              else r) (products d)\<rparr>)"
  using assms
  by (simp add: update_products_def product_cols_typed_def col_ok_def is_null_def fk_ok_def
      product_row_update_quantity)

lemma update_products_quantity_range:
  assumes "\<not> int4_ok v"
  shows "update_products uid now pid
           \<lparr>c_name = Absent, c_sku = Absent, c_category_id = Absent,
            c_price = Absent, c_quantity = Val v, c_status = Absent, c_description = Absent\<rparr> d
         = Inl OutOfRange"
  using assms by (simp add: update_products_def product_cols_typed_def col_ok_def)

lemma StockModal_handleSubmit_ClosedD:
  assumes "StockModal_handleSubmit products_prop userId t1 t2 new_id formData d = (Closed, d')"
  shows "\<exists>product q.
      find (\<lambda>p. prod_id p = f_product_id formData) products_prop = Some product
      \<and> parseInt (f_quantity formData) = Some q
      \<and> \<not> (f_type formData = OUT \<and> prod_quantity product < q)
      \<and> int4_ok q
      \<and> int4_ok (if f_type formData = IN then prod_quantity product + q else prod_quantity product - q)
      \<and> is_active_user userId d
      \<and> f_product_id formData \<in> prod_id ` set (products d)
      \<and> userId \<in> set (auth_users d)
      \<and> new_id \<notin> tx_id ` set (stock_transactions d)
      \<and> d' = d\<lparr>stock_transactions := stock_transactions d @
                  [\<lparr>tx_id = new_id, tx_product_id = f_product_id formData, tx_user_id = userId,
                    tx_quantity = q, tx_kind = f_type formData, tx_notes = Some (f_notes formData),
                    tx_created_at = t1\<rparr>],
              products := map (\<lambda>r. if prod_id r = f_product_id formData
                then r\<lparr>prod_quantity :=
                         (if f_type formData = IN then prod_quantity product + q
                          else prod_quantity product - q),
                       prod_status := classify
                         (if f_type formData = IN then prod_quantity product + q
                          else prod_quantity product - q),
                       prod_updated_at := t2\<rparr>
                else r) (products d)\<rparr>"
proof -
  from assms obtain product where
    f: "find (\<lambda>p. prod_id p = f_product_id formData) products_prop = Some product"
    by (auto simp: StockModal_handleSubmit_def Let_def split: option.splits)
  let ?quantity = "parseInt (f_quantity formData)"
  let ?c = "\<lparr>s_product_id = f_product_id formData, s_user_id = userId,
             s_quantity = json_number ?quantity, s_type = f_type formData,
             s_notes = f_notes formData\<rparr>"
  from assms f have chk: "\<not> (f_type formData = OUT \<and> js_lt (prod_quantity product) ?quantity)"
    by (auto simp: StockModal_handleSubmit_def Let_def split: if_splits)
  from assms f chk obtain d1 where
    ins: "insert_into_stock_transactions userId t1 new_id ?c d = Inr d1"
    by (auto simp: StockModal_handleSubmit_def Let_def split: if_splits sum.splits)
  note D = insert_into_stock_transactions_InrD [OF ins]
  from D(5) obtain q where q: "?quantity = Some q" and r: "int4_ok q"
    and d1: "d1 = d\<lparr>stock_transactions := stock_transactions d @
               [\<lparr>tx_id = new_id, tx_product_id = f_product_id formData, tx_user_id = userId,
                 tx_quantity = q, tx_kind = f_type formData, tx_notes = Some (f_notes formData),
                 tx_created_at = t1\<rparr>]\<rparr>"
    by (cases ?quantity) (auto simp: json_number_def the_val_def col_ok_def)
  let ?nq = "if f_type formData = IN then prod_quantity product + q else prod_quantity product - q"
  let ?patch = "\<lparr>c_name = Absent, c_sku = Absent, c_category_id = Absent,
            c_price = Absent, c_quantity = Val ?nq, c_status = Absent, c_description = Absent\<rparr>"
  from assms f chk ins q have upd: "update_products userId t2 (f_product_id formData) ?patch d1 = Inr d'"
    by (auto simp: StockModal_handleSubmit_def Let_def js_add_def js_sub_def json_number_def
        split: if_splits sum.splits)
  have nq: "int4_ok ?nq"
  proof (rule ccontr)
    assume "\<not> int4_ok ?nq"
    from update_products_quantity_range [OF this] upd show False by simp
  qed
  have act: "is_active_user userId d1" using D(1) d1 by (simp add: is_active_user_def)
  have pid: "f_product_id formData \<in> prod_id ` set (products d1)" using D(3) d1 by simp
  from update_products_quantity [OF act pid nq, of t2] upd d1
  have "d' = d\<lparr>stock_transactions := stock_transactions d @
                  [\<lparr>tx_id = new_id, tx_product_id = f_product_id formData, tx_user_id = userId,
                    tx_quantity = q, tx_kind = f_type formData, tx_notes = Some (f_notes formData),
                    tx_created_at = t1\<rparr>],
              products := map (\<lambda>r. if prod_id r = f_product_id formData
                then r\<lparr>prod_quantity := ?nq, prod_status := classify ?nq, prod_updated_at := t2\<rparr>
                else r) (products d)\<rparr>"
    by simp
  with f q chk r nq D(1,2,3,4) show ?thesis
    by (auto simp: js_lt_def)
qed


lemma StockModal_handleSubmit_ClosedI:
  assumes "find (\<lambda>p. prod_id p = f_product_id formData) products_prop = Some product"
    and "parseInt (f_quantity formData) = Some q"
    and "\<not> (f_type formData = OUT \<and> prod_quantity product < q)"
    and "int4_ok q"
    and "int4_ok (if f_type formData = IN then prod_quantity product + q else prod_quantity product - q)"
    and "is_active_user userId d"
    and "f_product_id formData \<in> prod_id ` set (products d)"
    and "userId \<in> set (auth_users d)"
    and "new_id \<notin> tx_id ` set (stock_transactions d)"
  shows "StockModal_handleSubmit products_prop userId t1 t2 new_id formData d =
     (Closed, d\<lparr>stock_transactions := stock_transactions d @
                  [\<lparr>tx_id = new_id, tx_product_id = f_product_id formData, tx_user_id = userId,
                    tx_quantity = q, tx_kind = f_type formData, tx_notes = Some (f_notes formData),
                    tx_created_at = t1\<rparr>],
              products := map (\<lambda>r. if prod_id r = f_product_id formData
                then r\<lparr>prod_quantity :=
                         (if f_type formData = IN then prod_quantity product + q
                          else prod_quantity product - q),
                       prod_status := classify
                         (if f_type formData = IN then prod_quantity product + q
                          else prod_quantity product - q),
                       prod_updated_at := t2\<rparr>
                else r) (products d)\<rparr>)"
proof -
  let ?c = "\<lparr>s_product_id = f_product_id formData, s_user_id = userId,
             s_quantity = Val q, s_type = f_type formData, s_notes = f_notes formData\<rparr>"
  let ?d1 = "d\<lparr>stock_transactions := stock_transactions d @
                  [\<lparr>tx_id = new_id, tx_product_id = f_product_id formData, tx_user_id = userId,
                    tx_quantity = q, tx_kind = f_type formData, tx_notes = Some (f_notes formData),
                    tx_created_at = t1\<rparr>]\<rparr>"
  let ?nq = "if f_type formData = IN then prod_quantity product + q else prod_quantity product - q"
  have ins: "insert_into_stock_transactions userId t1 new_id ?c d = Inr ?d1"
    using assms(4,6,7,8,9)
    by (auto simp: insert_into_stock_transactions_def col_ok_def the_val_def)
  have act: "is_active_user userId ?d1" using assms(6) by (simp add: is_active_user_def)
  have pid: "f_product_id formData \<in> prod_id ` set (products ?d1)" using assms(7) by simp
  note upd = update_products_quantity [OF act pid assms(5), of t2]
  show ?thesis
    using assms(1,2,3) ins upd
    by (cases "f_type formData")
       (simp_all add: StockModal_handleSubmit_def Let_def js_lt_def js_add_def js_sub_def
          json_number_def)
qed

lemma find_SomeD: "find P xs = Some x \<Longrightarrow> x \<in> set xs \<and> P x"
  by (induction xs) (auto split: if_splits)

lemma set_loadProducts: "set (loadProducts d) = set (products d)"
  by (simp add: loadProducts_def)


lemma ball_map_if:
  "(\<forall>r \<in> set (map (\<lambda>r. if P r then f r else r) xs). Q r)
     = (\<forall>r \<in> set xs. if P r then Q (f r) else Q r)"
  by (induction xs) simp_all



subsection \<open>Invariants of the store\<close>

lemma product_row_update_status:
  "prod_status (product_row_update now c r) = classify (prod_quantity (product_row_update now c r))"
  by (simp add: product_row_update_def Let_def)

lemma insert_into_products_status:
  assumes "\<forall>p \<in> set (products d). prod_status p = classify (prod_quantity p)"
    and "insert_into_products uid now new_id c d = Inr d'"
  shows "\<forall>p \<in> set (products d'). prod_status p = classify (prod_quantity p)"
  using assms
  by (auto simp: insert_into_products_def split: if_splits option.splits)

lemma update_products_status:
  assumes "\<forall>p \<in> set (products d). prod_status p = classify (prod_quantity p)"
    and "update_products uid now pid c d = Inr d'"
  shows "\<forall>p \<in> set (products d'). prod_status p = classify (prod_quantity p)"
proof -
  from assms(2) consider "d' = d"
    | "d' = d\<lparr>products :=
        map (\<lambda>r. if prod_id r = pid then product_row_update now c r else r) (products d)\<rparr>"
    by (auto simp: update_products_def split: if_splits)
  then show ?thesis
  proof cases
    case 1
    with assms(1) show ?thesis by simp
  next
    case 2
    have ps: "products d' = map (\<lambda>r. if prod_id r = pid then product_row_update now c r else r) (products d)"
      unfolding 2 by simp
    show ?thesis
      unfolding ps ball_map_if using assms(1) by (simp add: product_row_update_status)
  qed
qed

lemma delete_from_categories_products:
  "delete_from_categories uid now cid d = Inr d' \<Longrightarrow>
     d' = d \<or> products d' = map (\<lambda>r. if prod_category_id r = Some cid
                              then product_row_update now
                                     \<lparr>c_name = Absent, c_sku = Absent, c_category_id = Null,
                                      c_price = Absent, c_quantity = Absent, c_status = Absent,
                                      c_description = Absent\<rparr> r
                              else r) (products d)"
  by (auto simp: delete_from_categories_def split: if_splits)

lemma delete_from_categories_status:
  assumes "\<forall>p \<in> set (products d). prod_status p = classify (prod_quantity p)"
    and "delete_from_categories uid now cid d = Inr d'"
  shows "\<forall>p \<in> set (products d'). prod_status p = classify (prod_quantity p)"
proof -
  from delete_from_categories_products [OF assms(2)] show ?thesis
  proof
    assume "d' = d"
    with assms(1) show ?thesis by simp
  next
    assume ps: "products d' = map (\<lambda>r. if prod_category_id r = Some cid
                              then product_row_update now
                                     \<lparr>c_name = Absent, c_sku = Absent, c_category_id = Null,
                                      c_price = Absent, c_quantity = Absent, c_status = Absent,
                                      c_description = Absent\<rparr> r
                              else r) (products d)"
    show ?thesis
      unfolding ps ball_map_if using assms(1) by (simp add: product_row_update_status)
  qed
qed

lemma delete_from_products_status:
  assumes "\<forall>p \<in> set (products d). prod_status p = classify (prod_quantity p)"
    and "delete_from_products uid pid d = Inr d'"
  shows "\<forall>p \<in> set (products d'). prod_status p = classify (prod_quantity p)"
  using assms by (auto simp: delete_from_products_def split: if_splits)

lemma other_requests_keep_products:
  "insert_into_stock_transactions uid now new_id sc d = Inr d' \<Longrightarrow> products d' = products d"
  "insert_into_categories uid now new_id kc d = Inr d' \<Longrightarrow> products d' = products d"
  "update_categories uid now cid kc d = Inr d' \<Longrightarrow> products d' = products d"
  "insert_into_profiles uid now new_id uc d = Inr d' \<Longrightarrow> products d' = products d"
  "update_profiles uid now target uc d = Inr d' \<Longrightarrow> products d' = products d"
  "handle_new_user now new_id meta_name d = Inr d' \<Longrightarrow> products d' = products d"
  "delete_from_auth_users target d = Inr d' \<Longrightarrow> products d' = products d"
  by (auto simp: insert_into_stock_transactions_def insert_into_categories_def
      update_categories_def insert_into_profiles_def update_profiles_def handle_new_user_def
      delete_from_auth_users_def split: if_splits option.splits)

lemma exec_status:
  assumes "\<forall>p \<in> set (products d). prod_status p = classify (prod_quantity p)"
    and "exec now req d = Inr d'"
  shows "\<forall>p \<in> set (products d'). prod_status p = classify (prod_quantity p)"
proof (cases req)
  case (ProductsInsert uid new_id c)
  with assms show ?thesis using insert_into_products_status by simp
next
  case (ProductsUpdate uid pid c)
  with assms show ?thesis using update_products_status by simp
next
  case (ProductsDelete uid pid)
  with assms show ?thesis using delete_from_products_status by simp
next
  case (CategoriesDelete uid cid)
  with assms show ?thesis using delete_from_categories_status by simp
qed (use assms in \<open>auto simp: update_stock_transactions_def delete_from_stock_transactions_def
       split: if_splits dest: other_requests_keep_products\<close>)

lemma reachable_status:
  "reachable d \<Longrightarrow> \<forall>p \<in> set (products d). prod_status p = classify (prod_quantity p)"
proof (induction rule: reachable.induct)
  case (reachable_init ids now)
  show ?case by (simp add: init_db_def)
next
  case (reachable_step d now req d')
  then show ?case using exec_status by blast
qed

lemma reachable_insert_tx:
  "reachable d \<Longrightarrow> insert_into_stock_transactions uid now nid c d = Inr d' \<Longrightarrow> reachable d'"
  using reachable_step [of d now "StockTransactionsInsert uid nid c" d'] by simp

lemma reachable_update_products:
  "reachable d \<Longrightarrow> update_products uid now pid c d = Inr d' \<Longrightarrow> reachable d'"
  using reachable_step [of d now "ProductsUpdate uid pid c" d'] by simp

lemma reachable_insert_products:
  "reachable d \<Longrightarrow> insert_into_products uid now nid c d = Inr d' \<Longrightarrow> reachable d'"
  using reachable_step [of d now "ProductsInsert uid nid c" d'] by simp

lemma StockModal_handleSubmit_reachable:
  assumes "reachable d"
  shows "reachable (snd (StockModal_handleSubmit products_prop userId t1 t2 new_id formData d))"
  using assms
  by (auto simp: StockModal_handleSubmit_def Let_def
      split: option.splits sum.splits
      dest: reachable_insert_tx reachable_update_products)

lemma ProductModal_handleSubmit_reachable:
  assumes "reachable d"
  shows "reachable (snd (ProductModal_handleSubmit product uid now new_id formData d))"
  using assms
  by (auto simp: ProductModal_handleSubmit_def
      split: option.splits sum.splits
      dest: reachable_insert_products reachable_update_products)

lemma demo_reached_reachable: "reachable demo_reached"
proof -
  let ?ids = "[''c-1'', ''c-2'', ''c-3'', ''c-4'', ''c-5'']"
  have r0: "reachable (init_db ?ids 0)"
    by (rule reachable_init) simp_all
  have e1: "exec 1 (SignUp ''u-staff'' (Some ''Sam'')) (init_db ?ids 0) = Inr demo_signed_up"
    by (simp add: handle_new_user_def init_db_def demo_signed_up_def demo_staff_def)
  have e2: "exec 2 (ProductsInsert ''u-staff'' ''p-1'' (demo_product_cols Absent)) demo_signed_up
              = Inr demo_reached"
    by (simp add: insert_into_products_def demo_product_cols_def demo_signed_up_def
        demo_reached_def demo_staff_def demo_product_def init_db_def sample_categories_def
        product_cols_typed_def col_ok_def int4_ok_def decimal_10_2_ok_def is_active_user_def
        the_val_def with_default_def fk_ok_def assign_opt_def)
  from reachable_step [OF reachable_step [OF r0 e1] e2] show ?thesis .
qed

lemma map_key_preserved:
  assumes "\<And>r. key (g r) = key r"
  shows "map key (map g xs) = map key xs"
  using assms by (induction xs) simp_all

lemma update_profiles_ids:
  assumes "update_profiles uid now target c d = Inr d'"
  shows "map prof_id (profiles d') = map prof_id (profiles d)"
proof -
  let ?g = "\<lambda>r. if prof_id r = target
                  then r\<lparr>prof_name := assign (u_name c) (prof_name r),
                         prof_role := assign (u_role c) (prof_role r),
                         prof_is_active := assign_opt (u_is_active c) (prof_is_active r),
                         prof_updated_at := now\<rparr>
                  else r"
  from assms consider "d' = d" | "d' = d\<lparr>profiles := map ?g (profiles d)\<rparr>"
    by (auto simp: update_profiles_def split: if_splits)
  then show ?thesis
  proof cases
    case 1
    then show ?thesis by simp
  next
    case 2
    have "map prof_id (map ?g (profiles d)) = map prof_id (profiles d)"
      by (rule map_key_preserved) simp
    with 2 show ?thesis by simp
  qed
qed

lemma exec_profiles_distinct:
  assumes "distinct (map prof_id (profiles d))" and "exec now req d = Inr d'"
  shows "distinct (map prof_id (profiles d'))"
proof (cases req)
  case (ProfilesUpdate uid target c)
  with assms update_profiles_ids [of uid now target c d d'] show ?thesis
    by simp
next
  case (ProfilesInsert uid new_id c)
  with assms show ?thesis
    by (auto simp: insert_into_profiles_def split: if_splits option.splits)
next
  case (SignUp new_id meta_name)
  with assms show ?thesis
    by (auto simp: handle_new_user_def split: if_splits)
next
  case (AccountDelete target)
  with assms show ?thesis
    by (auto simp: delete_from_auth_users_def distinct_map_filter split: if_splits)
qed (use assms in \<open>auto simp: insert_into_products_def update_products_def delete_from_products_def
       insert_into_stock_transactions_def update_stock_transactions_def
       delete_from_stock_transactions_def insert_into_categories_def update_categories_def
       delete_from_categories_def split: if_splits option.splits\<close>)

lemma reachable_profiles_distinct: "reachable d \<Longrightarrow> distinct (map prof_id (profiles d))"
proof (induction rule: reachable.induct)
  case (reachable_init ids now)
  show ?case by (simp add: init_db_def)
next
  case (reachable_step d now req d')
  then show ?case using exec_profiles_distinct by blast
qed

subsection \<open>Policies and the ledger, request by request\<close>

lemma profile_row_unique:
  assumes "distinct (map prof_id (profiles d))"
    and "r \<in> set (profiles d)" and "r' \<in> set (profiles d)" and "prof_id r' = prof_id r"
  shows "r' = r"
  using assms by (meson distinct_map inj_on_eq_iff)

lemma is_active_user_row:
  assumes "distinct (map prof_id (profiles d))" and "r \<in> set (profiles d)" and "prof_id r = uid"
  shows "is_active_user uid d = (prof_is_active r = Some True)"
proof
  assume "is_active_user uid d"
  then obtain r' where r': "r' \<in> set (profiles d)" "prof_id r' = uid" "prof_is_active r' = Some True"
    by (auto simp: is_active_user_def list_ex_iff)
  with profile_row_unique [OF assms(1,2), of r'] assms(3) show "prof_is_active r = Some True"
    by simp
next
  assume "prof_is_active r = Some True"
  with assms(2,3) show "is_active_user uid d"
    by (auto simp: is_active_user_def list_ex_iff)
qed

lemma insert_into_products_denied:
  assumes "\<not> is_active_user uid d"
  shows "\<exists>e. insert_into_products uid now new_id c d = Inl e"
    and "c_status c = Absent \<Longrightarrow> product_cols_typed c \<Longrightarrow>
           insert_into_products uid now new_id c d = Inl RlsViolation"
  using assms by (simp_all add: insert_into_products_def)

lemma payload_status: "c_status (payload formData) = Absent"
  by (simp add: payload_def)

lemma ProductModal_create_denied:
  assumes "\<not> is_active_user uid d"
  shows "\<exists>e. ProductModal_handleSubmit None uid now new_id formData d = (Failed (StoreFailure e), d)"
  using insert_into_products_denied(1) [OF assms, of now new_id "payload formData"]
  by (auto simp: ProductModal_handleSubmit_def)

lemma ProductModal_create_accepted:
  assumes act: "is_active_user uid d"
    and q: "parseInt (pf_quantity formData) = Some q" "int4_ok q"
    and pr: "pf_price formData = Some pr" "decimal_10_2_ok pr"
    and fresh: "new_id \<notin> prod_id ` set (products d)" "pf_sku formData \<notin> prod_sku ` set (products d)"
    and cat: "pf_category_id formData = [] \<or> pf_category_id formData \<in> cat_id ` set (categories d)"
  shows "ProductModal_handleSubmit None uid now new_id formData d =
     (Closed, d\<lparr>products := products d @
        [\<lparr>prod_id = new_id, prod_name = pf_name formData, prod_sku = pf_sku formData,
          prod_category_id =
            (if pf_category_id formData = [] then None else Some (pf_category_id formData)),
          prod_price = pr, prod_quantity = q, prod_status = classify q,
          prod_description = Some (pf_description formData),
          prod_created_at = now, prod_updated_at = now\<rparr>]\<rparr>)"
  using assms
  by (auto simp: ProductModal_handleSubmit_def insert_into_products_def payload_def
      product_cols_typed_def col_ok_def json_number_def the_val_def with_default_def
      fk_ok_def assign_opt_def)

lemma exec_ledger_kept:
  assumes "exec now req d = Inr d'" and "t \<in> set (stock_transactions d)"
  shows "t \<in> set (stock_transactions d')
         \<or> (\<exists>uid. req = ProductsDelete uid (tx_product_id t) \<and> is_admin uid d)
         \<or> req = AccountDelete (tx_user_id t)"
  using assms
  by (cases req)
     (auto simp: insert_into_products_def update_products_def delete_from_products_def
        insert_into_stock_transactions_def update_stock_transactions_def
        delete_from_stock_transactions_def insert_into_categories_def update_categories_def
        delete_from_categories_def insert_into_profiles_def update_profiles_def
        handle_new_user_def delete_from_auth_users_def
        split: if_splits option.splits)

lemma exec_ledger_new:
  assumes "exec now req d = Inr d'" and "t \<in> set (stock_transactions d')"
  shows "t \<in> set (stock_transactions d)
         \<or> (\<exists>uid c. req = StockTransactionsInsert uid (tx_id t) c \<and> is_active_user uid d
               \<and> tx_created_at t = now)"
  using assms
  by (cases req)
     (auto simp: insert_into_products_def update_products_def delete_from_products_def
        insert_into_stock_transactions_def update_stock_transactions_def
        delete_from_stock_transactions_def insert_into_categories_def update_categories_def
        delete_from_categories_def insert_into_profiles_def update_profiles_def
        handle_new_user_def delete_from_auth_users_def
        split: if_splits option.splits)

lemma exec_ledger_appends:
  assumes "exec now req d = Inr d'"
    and "\<forall>uid pid. req \<noteq> ProductsDelete uid pid" and "\<forall>target. req \<noteq> AccountDelete target"
  shows "\<exists>ts. stock_transactions d' = stock_transactions d @ ts \<and> length ts \<le> 1"
  using assms
  by (cases req)
     (auto simp: insert_into_products_def update_products_def
        insert_into_stock_transactions_def update_stock_transactions_def
        delete_from_stock_transactions_def insert_into_categories_def update_categories_def
        delete_from_categories_def insert_into_profiles_def update_profiles_def
        handle_new_user_def
        split: if_splits option.splits)

subsection \<open>When two movements go through\<close>

lemma find_present:
  assumes "pid \<in> key ` set xs"
  shows "\<exists>x. find (\<lambda>p. key p = pid) xs = Some x"
proof (cases "find (\<lambda>p. key p = pid) xs")
  case None
  with assms show ?thesis by (auto simp: find_None_iff)
next
  case (Some x)
  then show ?thesis by blast
qed

lemma recordMovement_ClosedI:
  assumes "StockModal_handleSubmit (fst page) userId t1 t2 new_id formData (snd page) = (Closed, d')"
  shows "recordMovement userId t1 t2 new_id formData page = (Closed, loadProducts d', d')"
  using assms by (simp add: recordMovement_def)

lemma in_then_out_goes_through:
  assumes fin: "f_product_id form_in = pid" "f_type form_in = IN"
      "parseInt (f_quantity form_in) = Some q"
    and fout: "f_product_id form_out = pid" "f_type form_out = OUT"
      "parseInt (f_quantity form_out) = Some q"
    and range: "int4_ok q"
    and zero: "\<forall>r \<in> set (products d). prod_id r = pid \<longrightarrow> prod_quantity r = 0"
    and stored: "pid \<in> prod_id ` set (products d)"
    and act: "is_active_user userId d" and au: "userId \<in> set (auth_users d)"
    and ids: "id1 \<notin> tx_id ` set (stock_transactions d)"
      "id2 \<notin> tx_id ` set (stock_transactions d)" "id1 \<noteq> id2"
  shows "\<exists>page1 page2.
           recordMovement userId t1 t2 id1 form_in (loadProducts d, d) = (Closed, page1)
           \<and> recordMovement userId t3 t4 id2 form_out page1 = (Closed, page2)"
proof -
  from stored have "pid \<in> prod_id ` set (loadProducts d)" by (simp add: set_loadProducts)
  from find_present [OF this] obtain product where
    f1: "find (\<lambda>p. prod_id p = pid) (loadProducts d) = Some product" by blast
  from find_SomeD [OF f1] zero have c1: "prod_quantity product = 0"
    by (simp add: set_loadProducts)
  let ?d1 = "d\<lparr>stock_transactions := stock_transactions d @
                  [\<lparr>tx_id = id1, tx_product_id = f_product_id form_in, tx_user_id = userId,
                    tx_quantity = q, tx_kind = f_type form_in, tx_notes = Some (f_notes form_in),
                    tx_created_at = t1\<rparr>],
              products := map (\<lambda>r. if prod_id r = f_product_id form_in
                then r\<lparr>prod_quantity :=
                         (if f_type form_in = IN then prod_quantity product + q
                          else prod_quantity product - q),
                       prod_status := classify
                         (if f_type form_in = IN then prod_quantity product + q
                          else prod_quantity product - q),
                       prod_updated_at := t2\<rparr>
                else r) (products d)\<rparr>"
  have h1: "StockModal_handleSubmit (loadProducts d) userId t1 t2 id1 form_in d = (Closed, ?d1)"
    by (rule StockModal_handleSubmit_ClosedI [where q = q])
       (use f1 fin range c1 act au stored ids in simp_all)
  note m1 = recordMovement_ClosedI [of "(loadProducts d, d)", simplified, OF h1]
  let ?g = "\<lambda>r. if prod_id r = pid
                then r\<lparr>prod_quantity := q, prod_status := classify q, prod_updated_at := t2\<rparr>
                else r"
  have ps1: "products ?d1 = map ?g (products d)"
    by (simp add: fin c1)
  have "map prod_id (map ?g (products d)) = map prod_id (products d)"
    by (rule map_key_preserved) simp
  then have "set (map prod_id (map ?g (products d))) = set (map prod_id (products d))"
    by (rule arg_cong)
  then have "prod_id ` set (map ?g (products d)) = prod_id ` set (products d)"
    by (simp only: set_map)
  with stored have "pid \<in> prod_id ` set (map ?g (products d))" by blast
  then have stored1: "pid \<in> prod_id ` set (products ?d1)" by (simp only: ps1)
  then have "pid \<in> prod_id ` set (loadProducts ?d1)" by (simp only: set_loadProducts)
  from find_present [OF this] obtain product2 where
    f2: "find (\<lambda>p. prod_id p = pid) (loadProducts ?d1) = Some product2" by blast
  have "\<forall>r \<in> set (map ?g (products d)). prod_id r = pid \<longrightarrow> prod_quantity r = q"
    unfolding ball_map_if by simp
  then have q1: "\<forall>r \<in> set (products ?d1). prod_id r = pid \<longrightarrow> prod_quantity r = q"
    by (simp only: ps1)
  from find_SomeD [OF f2, THEN conjunct1] have "product2 \<in> set (products ?d1)"
    by (simp only: set_loadProducts)
  from q1 [rule_format, OF this find_SomeD [OF f2, THEN conjunct2]]
  have c2: "prod_quantity product2 = q" .
  have act1: "is_active_user userId ?d1" using act by (simp add: is_active_user_def)
  have au1: "userId \<in> set (auth_users ?d1)" using au by simp
  have fresh2: "id2 \<notin> tx_id ` set (stock_transactions ?d1)" using ids by auto
  have r0: "int4_ok 0" by (simp add: int4_ok_def)
  have "\<exists>d2. StockModal_handleSubmit (loadProducts ?d1) userId t3 t4 id2 form_out ?d1 = (Closed, d2)"
    by (rule exI, rule StockModal_handleSubmit_ClosedI [where q = q and product = product2])
       (use f2 fout range c2 act1 au1 stored1 fresh2 r0 in \<open>simp_all only: simp_thms if_False
          tx_type.distinct diff_self\<close>)
  then obtain d2 where
    h2: "StockModal_handleSubmit (loadProducts ?d1) userId t3 t4 id2 form_out ?d1 = (Closed, d2)"
    by blast
  note m2 = recordMovement_ClosedI [of "(loadProducts ?d1, ?d1)", unfolded fst_conv snd_conv, OF h2]
  from m1 m2 show ?thesis by blast
qed

subsection \<open>The sample data, run\<close>

lemma parseInt_m5: "parseInt ''-5'' = Some (- 5)" by code_simp

lemma parseInt_m10: "parseInt ''-10'' = Some (- 10)" by code_simp

lemma parseInt_2: "parseInt ''2'' = Some 2" by code_simp


lemma parseInt_int4_max: "parseInt ''2147483647'' = Some 2147483647" by code_simp

lemmas run_defs = StockModal_handleSubmit_def insert_into_stock_transactions_def update_products_def
  product_row_update_def loadProducts_def is_active_user_def col_ok_def int4_ok_def with_default_def
  the_val_def
  product_cols_typed_def is_null_def fk_ok_def assign_def assign_opt_def js_lt_def js_add_def js_sub_def
  json_number_def classify_def

lemma demo_find: "find (\<lambda>p. prod_id p = ''p-1'') (loadProducts (demo_db q)) = Some (demo_product q)"
  by (simp add: loadProducts_def demo_defs demo_move_defs)

lemma demo_run_in_5:
  "StockModal_handleSubmit (loadProducts (demo_db 3)) ''u-staff'' 10 11 ''t-1''
      (demo_form IN ''5'') (demo_db 3)
   = (Closed, demo_db_moved [demo_ledger_row ''t-1'' IN 5 10] 8 11)"
  by (simp add: run_defs demo_defs demo_move_defs parseInt_5)

lemma demo_run_out_m5:
  "StockModal_handleSubmit (loadProducts (demo_db 3)) ''u-staff'' 10 11 ''t-1''
      (demo_form OUT ''-5'') (demo_db 3)
   = (Closed, demo_db_moved [demo_ledger_row ''t-1'' OUT (- 5) 10] 8 11)"
  by (simp add: run_defs demo_defs demo_move_defs parseInt_m5)



lemma demo_move_in_m10:
  "recordMovement ''u-staff'' 10 11 ''t-1'' (demo_form IN ''-10'') (loadProducts (demo_db 0), demo_db 0)
   = (Closed, loadProducts (demo_db_moved [demo_ledger_row ''t-1'' IN (- 10) 10] (- 10) 11),
        demo_db_moved [demo_ledger_row ''t-1'' IN (- 10) 10] (- 10) 11)"
  by (simp add: recordMovement_def run_defs demo_defs demo_move_defs parseInt_m10)

lemma demo_move_out_m5_refused:
  "recordMovement ''u-staff'' 12 13 ''t-2'' (demo_form OUT ''-5'')
     (loadProducts (demo_db_moved [demo_ledger_row ''t-1'' IN (- 10) 10] (- 10) 11),
        demo_db_moved [demo_ledger_row ''t-1'' IN (- 10) 10] (- 10) 11)
   = (Failed InsufficientStock,
      loadProducts (demo_db_moved [demo_ledger_row ''t-1'' IN (- 10) 10] (- 10) 11),
        demo_db_moved [demo_ledger_row ''t-1'' IN (- 10) 10] (- 10) 11)"
  by (simp add: recordMovement_def run_defs demo_defs demo_move_defs parseInt_m5)

lemma demo_edit_to_2:
  "ProductModal_handleSubmit (Some (demo_product 10)) ''u-admin'' 5 ''p-2''
      (demo_product_form ''2'') (demo_db 10)
   = (Closed, demo_db_moved [] 2 5)"
  by (simp add: ProductModal_handleSubmit_def payload_def run_defs decimal_10_2_ok_def
      demo_defs demo_move_defs demo_product_form_def parseInt_2)

lemma demo_run_out_5_stale:
  "StockModal_handleSubmit (loadProducts (demo_db 10)) ''u-staff'' 10 11 ''t-1''
      (demo_form OUT ''5'') (demo_db_moved [] 2 5)
   = (Closed, demo_db_moved [demo_ledger_row ''t-1'' OUT 5 10] 5 11)"
  by (simp add: run_defs demo_defs demo_move_defs parseInt_5)

lemma parseInt_4: "parseInt ''4'' = Some 4" by code_simp

subsection \<open>The status classifier\<close>

text \<open>
  C3. The classifier is a total function of the quantity: zero is out of stock, one
  to four units are low stock, five units or more are in stock.
\<close>

theorem classify_rule:
  "classify 0 = out_of_stock
   \<and> (\<forall>q. 1 \<le> q \<and> q \<le> 4 \<longrightarrow> classify q = low_stock)
   \<and> (\<forall>q. 5 \<le> q \<longrightarrow> classify q = in_stock)"
  by (simp add: classify_def)

theorem classify_rule_witness:
  "classify 0 = out_of_stock \<and> classify 1 = low_stock \<and> classify 4 = low_stock
   \<and> classify 5 = in_stock \<and> classify 2147483647 = in_stock"
  using classify_rule by auto

subsection \<open>Stock movements\<close>

text \<open>
  C1. A movement OUT that asks for more than the quantity the form compares it with
  fails with InsufficientStock, and the store is left as it was: no ledger row, and
  the product row untouched. The page keeps its list.
\<close>

theorem insufficient_stock_no_writes:
  assumes "find (\<lambda>p. prod_id p = f_product_id formData) products_prop = Some product"
    and "f_type formData = OUT"
    and "parseInt (f_quantity formData) = Some q"
    and "prod_quantity product < q"
  shows "StockModal_handleSubmit products_prop userId t1 t2 new_id formData d
           = (Failed InsufficientStock, d)
         \<and> recordMovement userId t1 t2 new_id formData (products_prop, d)
           = (Failed InsufficientStock, products_prop, d)"
  using assms by (simp add: StockModal_handleSubmit_def recordMovement_def js_lt_def)

theorem insufficient_stock_no_writes_witness:
  "StockModal_handleSubmit (loadProducts (demo_db 3)) ''u-staff'' 10 11 ''t-1''
      (demo_form OUT ''5'') (demo_db 3) = (Failed InsufficientStock, demo_db 3)
   \<and> recordMovement ''u-staff'' 10 11 ''t-1'' (demo_form OUT ''5'')
        (loadProducts (demo_db 3), demo_db 3)
      = (Failed InsufficientStock, loadProducts (demo_db 3), demo_db 3)"
proof -
  have f: "find (\<lambda>p. prod_id p = f_product_id (demo_form OUT ''5'')) (loadProducts (demo_db 3))
             = Some (demo_product 3)"
    by (simp add: loadProducts_def demo_defs demo_move_defs)
  have q: "parseInt (f_quantity (demo_form OUT ''5'')) = Some 5"
    by (simp add: demo_form_def parseInt_5)
  show ?thesis
    by (rule insufficient_stock_no_writes [OF f _ q]) (simp_all add: demo_defs demo_move_defs)
qed

text \<open>
  C5 as stated fails where the store refuses the update. A movement IN of 2147483647
  on a product listed and stored at 3 units, by an active user, passes every check of
  the form; the ledger row is inserted, the new quantity 2147483650 is outside the
  integer column, the UPDATE is refused, and the product still holds 3 units.
\<close>

theorem movement_overflow_counterexample:
  "find (\<lambda>p. prod_id p = f_product_id (demo_form IN ''2147483647'')) (loadProducts (demo_db 3))
     = Some (demo_product 3)
   \<and> parseInt (f_quantity (demo_form IN ''2147483647'')) = Some 2147483647
   \<and> is_active_user ''u-staff'' (demo_db 3)
   \<and> StockModal_handleSubmit (loadProducts (demo_db 3)) ''u-staff'' 10 11 ''t-1''
        (demo_form IN ''2147483647'') (demo_db 3)
     = (Failed (StoreFailure OutOfRange),
        (demo_db 3)\<lparr>stock_transactions := [demo_ledger_row ''t-1'' IN 2147483647 10]\<rparr>)
   \<and> map prod_quantity
        (products ((demo_db 3)\<lparr>stock_transactions := [demo_ledger_row ''t-1'' IN 2147483647 10]\<rparr>))
       = [3]"
  by (simp add: run_defs demo_defs demo_move_defs parseInt_int4_max)

text \<open>
  C5 (amended). When the form passes its checks and the store accepts both writes
  (the form closes), the product row holds the quantity the form read from its list
  plus the requested quantity for IN, minus it for OUT; the update writes that value,
  the status computed from it and the update time, and nothing else.
\<close>

theorem movement_writes_new_quantity:
  assumes "StockModal_handleSubmit products_prop userId t1 t2 new_id formData d = (Closed, d')"
  shows "\<exists>product q.
      find (\<lambda>p. prod_id p = f_product_id formData) products_prop = Some product
      \<and> parseInt (f_quantity formData) = Some q
      \<and> (\<exists>r \<in> set (products d'). prod_id r = f_product_id formData)
      \<and> (\<forall>r \<in> set (products d'). prod_id r = f_product_id formData \<longrightarrow>
            prod_quantity r = (if f_type formData = IN then prod_quantity product + q
                               else prod_quantity product - q))
      \<and> products d' = map (\<lambda>r. if prod_id r = f_product_id formData
            then r\<lparr>prod_quantity :=
                     (if f_type formData = IN then prod_quantity product + q
                      else prod_quantity product - q),
                   prod_status := classify
                     (if f_type formData = IN then prod_quantity product + q
                      else prod_quantity product - q),
                   prod_updated_at := t2\<rparr>
            else r) (products d)"
proof -
  from StockModal_handleSubmit_ClosedD [OF assms] obtain product q where
    f: "find (\<lambda>p. prod_id p = f_product_id formData) products_prop = Some product"
    and q: "parseInt (f_quantity formData) = Some q"
    and pid: "f_product_id formData \<in> prod_id ` set (products d)"
    and d': "d' = d\<lparr>stock_transactions := stock_transactions d @
                  [\<lparr>tx_id = new_id, tx_product_id = f_product_id formData, tx_user_id = userId,
                    tx_quantity = q, tx_kind = f_type formData, tx_notes = Some (f_notes formData),
                    tx_created_at = t1\<rparr>],
              products := map (\<lambda>r. if prod_id r = f_product_id formData
                then r\<lparr>prod_quantity :=
                         (if f_type formData = IN then prod_quantity product + q
                          else prod_quantity product - q),
                       prod_status := classify
                         (if f_type formData = IN then prod_quantity product + q
                          else prod_quantity product - q),
                       prod_updated_at := t2\<rparr>
                else r) (products d)\<rparr>"
    by blast
  let ?nq = "if f_type formData = IN then prod_quantity product + q else prod_quantity product - q"
  let ?f = "\<lambda>r. if prod_id r = f_product_id formData
                then r\<lparr>prod_quantity := ?nq, prod_status := classify ?nq, prod_updated_at := t2\<rparr>
                else r"
  have ps: "products d' = map ?f (products d)" unfolding d' by simp
  from pid obtain r0 where r0: "r0 \<in> set (products d)" "prod_id r0 = f_product_id formData"
    by auto
  have "?f r0 \<in> set (products d')" unfolding ps set_map using r0(1) by (rule imageI)
  moreover have "prod_id (?f r0) = f_product_id formData" using r0(2) by simp
  ultimately have ex: "\<exists>r \<in> set (products d'). prod_id r = f_product_id formData"
    by blast
  have all: "\<forall>r \<in> set (products d'). prod_id r = f_product_id formData \<longrightarrow> prod_quantity r = ?nq"
    unfolding ps by auto
  from f q ex all ps show ?thesis by blast
qed

theorem movement_writes_new_quantity_witness:
  "StockModal_handleSubmit (loadProducts (demo_db 3)) ''u-staff'' 10 11 ''t-1''
      (demo_form IN ''5'') (demo_db 3)
   = (Closed, demo_db_moved [demo_ledger_row ''t-1'' IN 5 10] 8 11)
   \<and> (\<exists>product q.
        find (\<lambda>p. prod_id p = ''p-1'') (loadProducts (demo_db 3)) = Some product
        \<and> parseInt ''5'' = Some q
        \<and> prod_quantity product + q = 8
        \<and> (\<exists>r \<in> set (products (demo_db_moved [demo_ledger_row ''t-1'' IN 5 10] 8 11)).
              prod_id r = ''p-1'' \<and> prod_quantity r = prod_quantity product + q))"
proof -
  let ?X = "demo_db_moved [demo_ledger_row ''t-1'' IN 5 10] 8 11"
  from movement_writes_new_quantity [OF demo_run_in_5] obtain product q where
    f: "find (\<lambda>p. prod_id p = ''p-1'') (loadProducts (demo_db 3)) = Some product"
    and q: "parseInt ''5'' = Some q"
    and e: "\<exists>r \<in> set (products ?X). prod_id r = ''p-1''"
    and a: "\<forall>r \<in> set (products ?X). prod_id r = ''p-1'' \<longrightarrow> prod_quantity r = prod_quantity product + q"
    by (auto simp: demo_form_def)
  from a have "prod_quantity product + q = 8"
    by (simp add: demo_defs demo_move_defs)
  with f q e a demo_run_in_5 show ?thesis by blast
qed



text \<open>
  C2 as stated fails. The page loads its list while the product holds 10 units; the
  product is then edited to 2 units; a movement OUT of 5 submitted with that list is
  accepted, although the store holds 2 at that moment, and leaves 10 - 5 = 5 units.
\<close>

theorem stock_check_counterexample:
  "ProductModal_handleSubmit (Some (demo_product 10)) ''u-admin'' 5 ''p-2''
      (demo_product_form ''2'') (demo_db 10)
     = (Closed, demo_db_moved [] 2 5)
   \<and> map prod_quantity (products (demo_db_moved [] 2 5)) = [2]
   \<and> parseInt (f_quantity (demo_form OUT ''5'')) = Some 5
   \<and> StockModal_handleSubmit (loadProducts (demo_db 10)) ''u-staff'' 10 11 ''t-1''
      (demo_form OUT ''5'') (demo_db_moved [] 2 5)
     = (Closed, demo_db_moved [demo_ledger_row ''t-1'' OUT 5 10] 5 11)
   \<and> map prod_quantity (products (demo_db_moved [demo_ledger_row ''t-1'' OUT 5 10] 5 11)) = [5]"
  using demo_edit_to_2 demo_run_out_5_stale
  by (simp add: demo_defs demo_move_defs parseInt_5)

text \<open>
  C2 (amended). The form does not fetch: it looks the product up in the list the page
  handed to it, and the OUT check compares the request with the quantity in that
  list, whatever the store holds at that moment. When the list was just loaded from
  the store, the entry compared is a stored row.
\<close>

theorem stock_check_reads_the_list:
  assumes "find (\<lambda>p. prod_id p = f_product_id formData) products_prop = Some product"
    and "f_type formData = OUT"
  shows "(fst (StockModal_handleSubmit products_prop userId t1 t2 new_id formData d)
            = Failed InsufficientStock)
         = js_lt (prod_quantity product) (parseInt (f_quantity formData))
       \<and> (\<forall>d2. (fst (StockModal_handleSubmit products_prop userId t1 t2 new_id formData d2)
                   = Failed InsufficientStock)
               = (fst (StockModal_handleSubmit products_prop userId t1 t2 new_id formData d)
                   = Failed InsufficientStock))
       \<and> (products_prop = loadProducts d \<longrightarrow> product \<in> set (products d))"
proof -
  have a: "(fst (StockModal_handleSubmit products_prop userId t1 t2 new_id formData d')
            = Failed InsufficientStock)
         = js_lt (prod_quantity product) (parseInt (f_quantity formData))" for d'
    using assms
    by (auto simp: StockModal_handleSubmit_def Let_def split: sum.splits)
  have b: "products_prop = loadProducts d \<longrightarrow> product \<in> set (products d)"
    using find_SomeD [OF assms(1)] by (auto simp: set_loadProducts)
  from a b show ?thesis by simp
qed

theorem stock_check_reads_the_list_witness:
  "fst (StockModal_handleSubmit (loadProducts (demo_db 3)) ''u-staff'' 10 11 ''t-1''
      (demo_form OUT ''5'') (demo_db 3)) = Failed InsufficientStock
   \<and> fst (StockModal_handleSubmit (loadProducts (demo_db 3)) ''u-staff'' 10 11 ''t-1''
      (demo_form OUT ''5'') (demo_db 9)) = Failed InsufficientStock
   \<and> demo_product 3 \<in> set (products (demo_db 3))"
proof -
  have f: "find (\<lambda>p. prod_id p = f_product_id (demo_form OUT ''5'')) (loadProducts (demo_db 3))
             = Some (demo_product 3)"
    by (simp add: demo_find demo_form_def)
  have o: "f_type (demo_form OUT ''5'') = OUT"
    by (simp add: demo_form_def)
  have lt: "js_lt (prod_quantity (demo_product 3)) (parseInt (f_quantity (demo_form OUT ''5'')))"
    by (simp add: js_lt_def demo_defs demo_move_defs parseInt_5)
  note T = stock_check_reads_the_list [OF f o, of "''u-staff''" 10 11 "''t-1''" "demo_db 3"]
  from T lt have 1: "fst (StockModal_handleSubmit (loadProducts (demo_db 3)) ''u-staff'' 10 11 ''t-1''
      (demo_form OUT ''5'') (demo_db 3)) = Failed InsufficientStock"
    by blast
  from T 1 have 2: "fst (StockModal_handleSubmit (loadProducts (demo_db 3)) ''u-staff'' 10 11 ''t-1''
      (demo_form OUT ''5'') (demo_db 9)) = Failed InsufficientStock"
    by blast
  from T have 3: "demo_product 3 \<in> set (products (demo_db 3))"
    by blast
  from 1 2 3 show ?thesis by blast
qed

text \<open>
  C10 as stated fails where the listed quantity is below the negative request. A
  movement IN of -10 on an empty product is accepted and leaves -10 units; a movement
  OUT of -5 is then refused with InsufficientStock, since -10 < -5, and nothing is
  written.
\<close>

theorem negative_out_counterexample:
  "recordMovement ''u-staff'' 10 11 ''t-1'' (demo_form IN ''-10'') (loadProducts (demo_db 0), demo_db 0)
   = (Closed, loadProducts (demo_db_moved [demo_ledger_row ''t-1'' IN (- 10) 10] (- 10) 11),
        demo_db_moved [demo_ledger_row ''t-1'' IN (- 10) 10] (- 10) 11)
   \<and> map prod_quantity (products (demo_db_moved [demo_ledger_row ''t-1'' IN (- 10) 10] (- 10) 11))
       = [- 10]
   \<and> parseInt (f_quantity (demo_form OUT ''-5'')) = Some (- 5)
   \<and> recordMovement ''u-staff'' 12 13 ''t-2'' (demo_form OUT ''-5'')
     (loadProducts (demo_db_moved [demo_ledger_row ''t-1'' IN (- 10) 10] (- 10) 11),
        demo_db_moved [demo_ledger_row ''t-1'' IN (- 10) 10] (- 10) 11)
   = (Failed InsufficientStock,
      loadProducts (demo_db_moved [demo_ledger_row ''t-1'' IN (- 10) 10] (- 10) 11),
        demo_db_moved [demo_ledger_row ''t-1'' IN (- 10) 10] (- 10) 11)"
  using demo_move_in_m10 demo_move_out_m5_refused
  by (simp add: demo_defs demo_move_defs parseInt_m5)

text \<open>
  C10 (amended). The only check on the parsed number is the OUT comparison with the
  listed quantity; nothing asks for a positive number. A movement OUT of a negative
  \<open>q\<close> that is not above the listed quantity passes; when the store accepts both
  writes, the ledger has the row with quantity \<open>q\<close> and the product holds the listed
  quantity minus \<open>q\<close>, which is more than before.
\<close>

theorem negative_out_raises_stock:
  assumes "find (\<lambda>p. prod_id p = f_product_id formData) products_prop = Some product"
    and "parseInt (f_quantity formData) = Some q"
  shows "fst (StockModal_handleSubmit products_prop userId t1 t2 new_id formData d)
           \<noteq> Failed ProductNotFound
       \<and> ((fst (StockModal_handleSubmit products_prop userId t1 t2 new_id formData d)
             = Failed InsufficientStock)
            = (f_type formData = OUT \<and> prod_quantity product < q))
       \<and> (f_type formData = OUT \<and> q < 0 \<and> q \<le> prod_quantity product
           \<and> StockModal_handleSubmit products_prop userId t1 t2 new_id formData d = (Closed, d')
           \<longrightarrow>
             \<lparr>tx_id = new_id, tx_product_id = f_product_id formData, tx_user_id = userId,
               tx_quantity = q, tx_kind = OUT, tx_notes = Some (f_notes formData),
               tx_created_at = t1\<rparr> \<in> set (stock_transactions d')
             \<and> (\<exists>r \<in> set (products d'). prod_id r = f_product_id formData)
             \<and> (\<forall>r \<in> set (products d'). prod_id r = f_product_id formData \<longrightarrow>
                   prod_quantity r = prod_quantity product - q
                   \<and> prod_quantity product < prod_quantity r))"
proof -
  let ?H = "StockModal_handleSubmit products_prop userId t1 t2 new_id formData d"
  have a: "fst ?H \<noteq> Failed ProductNotFound"
    using assms by (auto simp: StockModal_handleSubmit_def Let_def split: sum.splits)
  have b: "(fst ?H = Failed InsufficientStock) = (f_type formData = OUT \<and> prod_quantity product < q)"
    using assms by (auto simp: StockModal_handleSubmit_def Let_def js_lt_def split: sum.splits)
  have c: "\<lparr>tx_id = new_id, tx_product_id = f_product_id formData, tx_user_id = userId,
               tx_quantity = q, tx_kind = OUT, tx_notes = Some (f_notes formData),
               tx_created_at = t1\<rparr> \<in> set (stock_transactions d')
             \<and> (\<exists>r \<in> set (products d'). prod_id r = f_product_id formData)
             \<and> (\<forall>r \<in> set (products d'). prod_id r = f_product_id formData \<longrightarrow>
                   prod_quantity r = prod_quantity product - q
                   \<and> prod_quantity product < prod_quantity r)"
    if out: "f_type formData = OUT" and neg: "q < 0" and run: "?H = (Closed, d')"
  proof -
    from StockModal_handleSubmit_ClosedD [OF run] assms out obtain
      stored: "f_product_id formData \<in> prod_id ` set (products d)"
      and ps: "products d' = map (\<lambda>r. if prod_id r = f_product_id formData
                then r\<lparr>prod_quantity := prod_quantity product - q,
                       prod_status := classify (prod_quantity product - q),
                       prod_updated_at := t2\<rparr>
                else r) (products d)"
      and st: "stock_transactions d' = stock_transactions d @
                  [\<lparr>tx_id = new_id, tx_product_id = f_product_id formData, tx_user_id = userId,
                    tx_quantity = q, tx_kind = OUT, tx_notes = Some (f_notes formData),
                    tx_created_at = t1\<rparr>]"
      by auto
    let ?f = "\<lambda>r. if prod_id r = f_product_id formData
                then r\<lparr>prod_quantity := prod_quantity product - q,
                       prod_status := classify (prod_quantity product - q),
                       prod_updated_at := t2\<rparr>
                else r"
    from stored obtain r0 where r0: "r0 \<in> set (products d)" "prod_id r0 = f_product_id formData"
      by auto
    have "?f r0 \<in> set (products d')" unfolding ps set_map using r0(1) by (rule imageI)
    moreover have "prod_id (?f r0) = f_product_id formData" using r0(2) by simp
    ultimately have ex: "\<exists>r \<in> set (products d'). prod_id r = f_product_id formData"
      by blast
    have all: "\<forall>r \<in> set (products d'). prod_id r = f_product_id formData \<longrightarrow>
                   prod_quantity r = prod_quantity product - q
                   \<and> prod_quantity product < prod_quantity r"
      unfolding ps using neg by auto
    from ex all st neg show ?thesis by simp
  qed
  from a b c show ?thesis by blast
qed

theorem negative_out_raises_stock_witness:
  "StockModal_handleSubmit (loadProducts (demo_db 3)) ''u-staff'' 10 11 ''t-1''
      (demo_form OUT ''-5'') (demo_db 3)
   = (Closed, demo_db_moved [demo_ledger_row ''t-1'' OUT (- 5) 10] 8 11)
   \<and> demo_ledger_row ''t-1'' OUT (- 5) 10
       \<in> set (stock_transactions (demo_db_moved [demo_ledger_row ''t-1'' OUT (- 5) 10] 8 11))
   \<and> (\<exists>r \<in> set (products (demo_db_moved [demo_ledger_row ''t-1'' OUT (- 5) 10] 8 11)).
         prod_id r = ''p-1'' \<and> prod_quantity r = 3 - (- 5) \<and> 3 < prod_quantity r)"
proof -
  let ?D = "demo_db_moved [demo_ledger_row ''t-1'' OUT (- 5) 10] 8 11"
  let ?form = "demo_form OUT ''-5''"
  have f: "find (\<lambda>p. prod_id p = f_product_id ?form) (loadProducts (demo_db 3))
             = Some (demo_product 3)"
    by (simp add: demo_find demo_form_def)
  have q: "parseInt (f_quantity ?form) = Some (- 5)"
    by (simp add: demo_form_def parseInt_m5)
  note T = negative_out_raises_stock [OF f q, of "''u-staff''" 10 11 "''t-1''" "demo_db 3" ?D]
  have h: "f_type ?form = OUT \<and> (- 5 :: int) < 0 \<and> - 5 \<le> prod_quantity (demo_product 3)
           \<and> StockModal_handleSubmit (loadProducts (demo_db 3)) ''u-staff'' 10 11 ''t-1''
                ?form (demo_db 3) = (Closed, ?D)"
    using demo_run_out_m5 by (simp add: demo_defs demo_move_defs)
  from T h have
    row: "\<lparr>tx_id = ''t-1'', tx_product_id = f_product_id ?form, tx_user_id = ''u-staff'',
               tx_quantity = - 5, tx_kind = OUT, tx_notes = Some (f_notes ?form),
               tx_created_at = 10\<rparr> \<in> set (stock_transactions ?D)"
    and ex: "\<exists>r \<in> set (products ?D). prod_id r = f_product_id ?form"
    and all: "\<forall>r \<in> set (products ?D). prod_id r = f_product_id ?form \<longrightarrow>
                   prod_quantity r = prod_quantity (demo_product 3) - (- 5)
                   \<and> prod_quantity (demo_product 3) < prod_quantity r"
    by blast+
  from row have 1: "demo_ledger_row ''t-1'' OUT (- 5) 10 \<in> set (stock_transactions ?D)"
    by (simp add: demo_form_def demo_ledger_row_def)
  from ex all have 2: "\<exists>r \<in> set (products ?D).
         prod_id r = ''p-1'' \<and> prod_quantity r = 3 - (- 5) \<and> 3 < prod_quantity r"
    by (auto simp: demo_form_def demo_product_def)
  from demo_run_out_m5 1 2 show ?thesis by blast
qed

subsection \<open>The generated status\<close>

text \<open>
  C4. In every reachable state each product row's status is the classification of its
  quantity; this holds again after any request the store accepts and after either
  form's submission, so the status is computed anew with every quantity written. A
  request that names the status column itself is refused, so no operation sets the
  status apart from the quantity.
\<close>

theorem status_follows_quantity:
  assumes "reachable d"
  shows "(\<forall>p \<in> set (products d). prod_status p = classify (prod_quantity p))
       \<and> (\<forall>now req d'. exec now req d = Inr d' \<longrightarrow>
            (\<forall>p \<in> set (products d'). prod_status p = classify (prod_quantity p)))
       \<and> (\<forall>p \<in> set (products (snd (StockModal_handleSubmit products_prop userId t1 t2 new_id
                                        formData d))).
            prod_status p = classify (prod_quantity p))
       \<and> (\<forall>p \<in> set (products (snd (ProductModal_handleSubmit product uid t new_id' productForm d))).
            prod_status p = classify (prod_quantity p))
       \<and> (\<forall>caller now x c. c_status c \<noteq> Absent \<longrightarrow>
            exec now (ProductsInsert caller x c) d = Inl GeneratedColumn
            \<and> exec now (ProductsUpdate caller x c) d = Inl GeneratedColumn)"
proof -
  note a = reachable_status [OF assms]
  have b: "\<forall>now req d'. exec now req d = Inr d' \<longrightarrow>
            (\<forall>p \<in> set (products d'). prod_status p = classify (prod_quantity p))"
    using exec_status [OF a] by blast
  note c = reachable_status [OF StockModal_handleSubmit_reachable [OF assms]]
  note e = reachable_status [OF ProductModal_handleSubmit_reachable [OF assms]]
  have f: "\<forall>caller now x c. c_status c \<noteq> Absent \<longrightarrow>
            exec now (ProductsInsert caller x c) d = Inl GeneratedColumn
            \<and> exec now (ProductsUpdate caller x c) d = Inl GeneratedColumn"
    by (simp add: insert_into_products_def update_products_def)
  from a b c e f show ?thesis by blast
qed

theorem status_follows_quantity_witness:
  "reachable demo_reached
   \<and> list_all (\<lambda>p. prod_status p = classify (prod_quantity p)) (products demo_reached)
   \<and> map prod_quantity (products demo_reached) = [3]
   \<and> map prod_status (products demo_reached) = [low_stock]
   \<and> exec 9 (ProductsUpdate ''u-staff'' ''p-1'' (demo_product_cols (Val in_stock))) demo_reached
       = Inl GeneratedColumn"
proof -
  note T = status_follows_quantity [OF demo_reached_reachable]
  from T [THEN conjunct1]
  have 1: "list_all (\<lambda>p. prod_status p = classify (prod_quantity p)) (products demo_reached)"
    unfolding list_all_iff .
  have "c_status (demo_product_cols (Val in_stock)) \<noteq> Absent"
    by (simp add: demo_product_cols_def)
  with T [THEN conjunct2, THEN conjunct2, THEN conjunct2, THEN conjunct2]
  have 2: "exec 9 (ProductsUpdate ''u-staff'' ''p-1'' (demo_product_cols (Val in_stock)))
      demo_reached = Inl GeneratedColumn"
    by blast
  have 3: "map prod_quantity (products demo_reached) = [3]"
    "map prod_status (products demo_reached) = [low_stock]"
    by (simp_all add: demo_reached_def demo_product_def classify_def)
  from demo_reached_reachable 1 2 3 show ?thesis by blast
qed

subsection \<open>Deleting a category\<close>

text \<open>
  C7 as stated fails on one column. The category delete sets the reference to null by
  an UPDATE of the product row, on which the trigger \<^verbatim>\<open>update_products_updated_at\<close>
  fires: the row stamped 2 is stamped 20, the time of the delete, afterwards.
\<close>

theorem category_delete_counterexample:
  "Categories_handleDelete True ''u-admin'' 20 ''c-1'' (demo_db 3)
     = (None, (demo_db 3)\<lparr>categories := [],
          products := [(demo_product 3)\<lparr>prod_category_id := None, prod_updated_at := 20\<rparr>]\<rparr>)
   \<and> map prod_updated_at (products (demo_db 3)) = [2]
   \<and> map prod_updated_at (products ((demo_db 3)\<lparr>categories := [],
          products := [(demo_product 3)\<lparr>prod_category_id := None, prod_updated_at := 20\<rparr>]\<rparr>))
       = [20]"
  by (simp add: Categories_handleDelete_def delete_from_categories_def is_admin_def
      product_row_update_def assign_def assign_opt_def demo_defs)

text \<open>
  C7 (amended). When an admin deletes a category, no product is deleted: each product
  that referenced it is still there with a null category reference and the time of
  the delete in \<^verbatim>\<open>updated_at\<close>, every other column as before; the other products and
  the ledger are untouched. The status invariant of C4 is assumed of the state.
\<close>

theorem category_delete_detaches_products:
  assumes adm: "is_admin uid d"
    and ex: "cid \<in> cat_id ` set (categories d)"
    and inv: "\<forall>p \<in> set (products d). prod_status p = classify (prod_quantity p)"
  shows "\<exists>d'. Categories_handleDelete True uid now cid d = (None, d')
           \<and> cid \<notin> cat_id ` set (categories d')
           \<and> products d' = map (\<lambda>p. if prod_category_id p = Some cid
                                    then p\<lparr>prod_category_id := None, prod_updated_at := now\<rparr>
                                    else p) (products d)
           \<and> (\<forall>p \<in> set (products d). prod_category_id p = Some cid \<longrightarrow>
                 p\<lparr>prod_category_id := None, prod_updated_at := now\<rparr> \<in> set (products d'))
           \<and> (\<forall>p \<in> set (products d). prod_category_id p \<noteq> Some cid \<longrightarrow> p \<in> set (products d'))
           \<and> length (products d') = length (products d)
           \<and> stock_transactions d' = stock_transactions d"
proof -
  let ?null = "\<lparr>c_name = Absent, c_sku = Absent, c_category_id = Null,
                 c_price = Absent, c_quantity = Absent, c_status = Absent,
                 c_description = Absent\<rparr>"
  let ?f = "\<lambda>r. if prod_category_id r = Some cid then product_row_update now ?null r else r"
  let ?g = "\<lambda>p. if prod_category_id p = Some cid
                 then p\<lparr>prod_category_id := None, prod_updated_at := now\<rparr> else p"
  let ?d' = "d\<lparr>categories := filter (\<lambda>r. cat_id r \<noteq> cid) (categories d),
               products := map ?f (products d)\<rparr>"
  have run: "Categories_handleDelete True uid now cid d = (None, ?d')"
    using adm ex by (simp add: Categories_handleDelete_def delete_from_categories_def)
  have row: "product_row_update now ?null p = p\<lparr>prod_category_id := None, prod_updated_at := now\<rparr>"
    if "prod_status p = classify (prod_quantity p)" for p
    using that by (simp add: product_row_update_def assign_def assign_opt_def)
  have fg: "map ?f (products d) = map ?g (products d)"
    by (rule map_cong [OF refl]) (use inv row in auto)
  have ps: "products ?d' = map ?g (products d)"
    using fg by simp
  have gone: "cid \<notin> cat_id ` set (categories ?d')"
    by auto
  have det: "\<forall>p \<in> set (products d). prod_category_id p = Some cid \<longrightarrow>
                 p\<lparr>prod_category_id := None, prod_updated_at := now\<rparr> \<in> set (products ?d')"
  proof (intro ballI impI)
    fix p assume p: "p \<in> set (products d)" "prod_category_id p = Some cid"
    from p(1) have "?g p \<in> set (map ?g (products d))" unfolding set_map by (rule imageI)
    with p(2) ps show "p\<lparr>prod_category_id := None, prod_updated_at := now\<rparr> \<in> set (products ?d')"
      by simp
  qed
  have keep: "\<forall>p \<in> set (products d). prod_category_id p \<noteq> Some cid \<longrightarrow> p \<in> set (products ?d')"
  proof (intro ballI impI)
    fix p assume p: "p \<in> set (products d)" "prod_category_id p \<noteq> Some cid"
    from p(1) have "?g p \<in> set (map ?g (products d))" unfolding set_map by (rule imageI)
    with p(2) ps show "p \<in> set (products ?d')"
      by simp
  qed
  have len: "length (products ?d') = length (products d)" by simp
  have st: "stock_transactions ?d' = stock_transactions d" by simp
  from run gone ps det keep len st show ?thesis by blast
qed

theorem category_delete_detaches_products_witness:
  "\<exists>d'. Categories_handleDelete True ''u-admin'' 20 ''c-1'' (demo_db 3) = (None, d')
     \<and> ''c-1'' \<notin> cat_id ` set (categories d')
     \<and> (demo_product 3)\<lparr>prod_category_id := None, prod_updated_at := 20\<rparr> \<in> set (products d')
     \<and> length (products d') = 1"
proof -
  have a: "is_admin ''u-admin'' (demo_db 3)"
    by (simp add: is_admin_def demo_defs)
  have b: "''c-1'' \<in> cat_id ` set (categories (demo_db 3))"
    by (simp add: demo_defs)
  have c: "\<forall>p \<in> set (products (demo_db 3)). prod_status p = classify (prod_quantity p)"
    by (simp add: demo_defs)
  from category_delete_detaches_products [OF a b c, of 20] obtain d' where
    1: "Categories_handleDelete True ''u-admin'' 20 ''c-1'' (demo_db 3) = (None, d')"
    and 2: "''c-1'' \<notin> cat_id ` set (categories d')"
    and 3: "\<forall>p \<in> set (products (demo_db 3)). prod_category_id p = Some ''c-1'' \<longrightarrow>
                 p\<lparr>prod_category_id := None, prod_updated_at := 20\<rparr> \<in> set (products d')"
    and 4: "length (products d') = length (products (demo_db 3))"
    by blast
  from 3 have 5: "(demo_product 3)\<lparr>prod_category_id := None, prod_updated_at := 20\<rparr> \<in> set (products d')"
    by (simp add: demo_db_def demo_product_def)
  from 4 have 6: "length (products d') = 1"
    by (simp add: demo_db_def)
  from 1 2 5 6 show ?thesis by blast
qed

subsection \<open>Who may create a product\<close>

text \<open>
  C8. For a staff user whose profile row has \<^verbatim>\<open>is_active\<close> false the insert policy
  of products is false: every insert is refused, with the policy violation when the
  request is otherwise well typed, and the product form fails leaving the store as
  it was. With \<^verbatim>\<open>is_active\<close> true the policy holds and the product form, filled with
  values the table accepts, appends the product.
\<close>

theorem inactive_staff_cannot_create_product:
  assumes pk: "distinct (map prof_id (profiles d))"
    and row: "r \<in> set (profiles d)" "prof_id r = uid" "prof_role r = staff"
  shows "(prof_is_active r = Some False \<longrightarrow>
            \<not> is_active_user uid d
            \<and> (\<forall>now new_id c. \<exists>e. insert_into_products uid now new_id c d = Inl e)
            \<and> (\<forall>now new_id c. c_status c = Absent \<and> product_cols_typed c \<longrightarrow>
                  insert_into_products uid now new_id c d = Inl RlsViolation)
            \<and> (\<forall>now new_id formData. \<exists>e.
                  ProductModal_handleSubmit None uid now new_id formData d
                    = (Failed (StoreFailure e), d)))
       \<and> (prof_is_active r = Some True \<longrightarrow>
            is_active_user uid d
            \<and> (\<forall>now new_id formData q pr.
                  parseInt (pf_quantity formData) = Some q \<and> int4_ok q
                  \<and> pf_price formData = Some pr \<and> decimal_10_2_ok pr
                  \<and> new_id \<notin> prod_id ` set (products d)
                  \<and> pf_sku formData \<notin> prod_sku ` set (products d)
                  \<and> (pf_category_id formData = []
                      \<or> pf_category_id formData \<in> cat_id ` set (categories d))
                  \<longrightarrow>
                  ProductModal_handleSubmit None uid now new_id formData d =
                    (Closed, d\<lparr>products := products d @
                      [\<lparr>prod_id = new_id, prod_name = pf_name formData,
                        prod_sku = pf_sku formData,
                        prod_category_id =
                          (if pf_category_id formData = [] then None
                           else Some (pf_category_id formData)),
                        prod_price = pr, prod_quantity = q, prod_status = classify q,
                        prod_description = Some (pf_description formData),
                        prod_created_at = now, prod_updated_at = now\<rparr>]\<rparr>)))"
proof (intro conjI impI)
  assume off: "prof_is_active r = Some False"
  with is_active_user_row [OF pk row(1,2)] show no: "\<not> is_active_user uid d"
    by simp
  from insert_into_products_denied(1) [OF no]
  show "\<forall>now new_id c. \<exists>e. insert_into_products uid now new_id c d = Inl e"
    by blast
  from insert_into_products_denied(2) [OF no]
  show "\<forall>now new_id c. c_status c = Absent \<and> product_cols_typed c \<longrightarrow>
          insert_into_products uid now new_id c d = Inl RlsViolation"
    by blast
  from ProductModal_create_denied [OF no]
  show "\<forall>now new_id formData. \<exists>e.
          ProductModal_handleSubmit None uid now new_id formData d = (Failed (StoreFailure e), d)"
    by blast
next
  assume on: "prof_is_active r = Some True"
  with is_active_user_row [OF pk row(1,2)] show yes: "is_active_user uid d"
    by simp
  show "\<forall>now new_id formData q pr.
                  parseInt (pf_quantity formData) = Some q \<and> int4_ok q
                  \<and> pf_price formData = Some pr \<and> decimal_10_2_ok pr
                  \<and> new_id \<notin> prod_id ` set (products d)
                  \<and> pf_sku formData \<notin> prod_sku ` set (products d)
                  \<and> (pf_category_id formData = []
                      \<or> pf_category_id formData \<in> cat_id ` set (categories d))
                  \<longrightarrow>
                  ProductModal_handleSubmit None uid now new_id formData d =
                    (Closed, d\<lparr>products := products d @
                      [\<lparr>prod_id = new_id, prod_name = pf_name formData,
                        prod_sku = pf_sku formData,
                        prod_category_id =
                          (if pf_category_id formData = [] then None
                           else Some (pf_category_id formData)),
                        prod_price = pr, prod_quantity = q, prod_status = classify q,
                        prod_description = Some (pf_description formData),
                        prod_created_at = now, prod_updated_at = now\<rparr>]\<rparr>)"
    using ProductModal_create_accepted [OF yes] by blast
qed

theorem inactive_staff_cannot_create_product_witness:
  "\<not> is_active_user ''u-staff'' demo_db_inactive
   \<and> insert_into_products ''u-staff'' 30 ''p-2'' (payload demo_new_product_form) demo_db_inactive
       = Inl RlsViolation
   \<and> is_active_user ''u-staff'' (demo_db 3)
   \<and> ProductModal_handleSubmit None ''u-staff'' 30 ''p-2'' demo_new_product_form (demo_db 3)
       = (Closed, (demo_db 3)\<lparr>products := [demo_product 3,
            \<lparr>prod_id = ''p-2'', prod_name = ''Saw'', prod_sku = ''HW-2'',
             prod_category_id = Some ''c-1'', prod_price = 1999, prod_quantity = 4,
             prod_status = low_stock, prod_description = Some ''Hand saw'',
             prod_created_at = 30, prod_updated_at = 30\<rparr>]\<rparr>)"
proof -
  let ?off = "demo_staff\<lparr>prof_is_active := Some False\<rparr>"
  have pk: "distinct (map prof_id (profiles demo_db_inactive))"
    by (simp add: demo_db_inactive_def demo_defs)
  have row: "?off \<in> set (profiles demo_db_inactive)" "prof_id ?off = ''u-staff''"
    "prof_role ?off = staff" "prof_is_active ?off = Some False"
    by (simp_all add: demo_db_inactive_def demo_defs)
  note T = inactive_staff_cannot_create_product [OF pk row(1,2,3), THEN conjunct1, rule_format,
      OF row(4)]
  from T have 1: "\<not> is_active_user ''u-staff'' demo_db_inactive"
    by blast
  have typed: "c_status (payload demo_new_product_form) = Absent
     \<and> product_cols_typed (payload demo_new_product_form)"
    by (simp add: payload_def demo_new_product_form_def product_cols_typed_def col_ok_def
        json_number_def parseInt_4 int4_ok_def decimal_10_2_ok_def)
  from T typed have 2: "insert_into_products ''u-staff'' 30 ''p-2''
      (payload demo_new_product_form) demo_db_inactive = Inl RlsViolation"
    by blast
  have pk': "distinct (map prof_id (profiles (demo_db 3)))"
    by (simp add: demo_defs)
  have row': "demo_staff \<in> set (profiles (demo_db 3))" "prof_id demo_staff = ''u-staff''"
    "prof_role demo_staff = staff" "prof_is_active demo_staff = Some True"
    by (simp_all add: demo_defs)
  note U = inactive_staff_cannot_create_product [OF pk' row'(1,2,3), THEN conjunct2, rule_format,
      OF row'(4)]
  from U have 3: "is_active_user ''u-staff'' (demo_db 3)"
    by blast
  have ok: "parseInt (pf_quantity demo_new_product_form) = Some 4 \<and> int4_ok 4
      \<and> pf_price demo_new_product_form = Some 1999 \<and> decimal_10_2_ok 1999
      \<and> ''p-2'' \<notin> prod_id ` set (products (demo_db 3))
      \<and> pf_sku demo_new_product_form \<notin> prod_sku ` set (products (demo_db 3))
      \<and> (pf_category_id demo_new_product_form = []
          \<or> pf_category_id demo_new_product_form \<in> cat_id ` set (categories (demo_db 3)))"
    by (simp add: demo_new_product_form_def parseInt_4 int4_ok_def decimal_10_2_ok_def demo_defs)
  from U [THEN conjunct2, rule_format, OF ok, of 30]
  have 4: "ProductModal_handleSubmit None ''u-staff'' 30 ''p-2'' demo_new_product_form (demo_db 3)
       = (Closed, (demo_db 3)\<lparr>products := [demo_product 3,
            \<lparr>prod_id = ''p-2'', prod_name = ''Saw'', prod_sku = ''HW-2'',
             prod_category_id = Some ''c-1'', prod_price = 1999, prod_quantity = 4,
             prod_status = low_stock, prod_description = Some ''Hand saw'',
             prod_created_at = 30, prod_updated_at = 30\<rparr>]\<rparr>)"
    by (simp add: demo_new_product_form_def demo_db_def classify_def)
  from 1 2 3 4 show ?thesis by blast
qed

subsection \<open>The ledger\<close>

text \<open>
  C9 as stated fails: ledger rows are deleted when their product is. After a movement
  has written a row for the product, an admin deletes the product on the Products
  page and the row is gone, by \<^verbatim>\<open>ON DELETE CASCADE\<close>.
\<close>

theorem ledger_cascade_counterexample:
  "StockModal_handleSubmit (loadProducts (demo_db 3)) ''u-staff'' 10 11 ''t-1''
      (demo_form IN ''5'') (demo_db 3)
     = (Closed, demo_db_moved [demo_ledger_row ''t-1'' IN 5 10] 8 11)
   \<and> stock_transactions (demo_db_moved [demo_ledger_row ''t-1'' IN 5 10] 8 11)
       = [demo_ledger_row ''t-1'' IN 5 10]
   \<and> Products_handleDelete True ''u-admin'' ''p-1''
        (demo_db_moved [demo_ledger_row ''t-1'' IN 5 10] 8 11)
     = (None, (demo_db_moved [demo_ledger_row ''t-1'' IN 5 10] 8 11)
                \<lparr>products := [], stock_transactions := []\<rparr>)
   \<and> stock_transactions ((demo_db_moved [demo_ledger_row ''t-1'' IN 5 10] 8 11)
                \<lparr>products := [], stock_transactions := []\<rparr>) = []"
  using demo_run_in_5
  by (simp add: Products_handleDelete_def delete_from_products_def is_admin_def demo_defs demo_move_defs)

text \<open>
  C9 (amended). No request ever changes a ledger row, and update and delete requests
  on the ledger change nothing. A row appears only by an insert made by an active
  user. A row disappears only by cascade: when an admin deletes its product, or when
  its user's account is removed. Every other accepted request leaves the ledger as
  it was or with one row appended.
\<close>

theorem ledger_rows_appended_or_cascaded:
  assumes "exec now req d = Inr d'"
  shows "(\<forall>t \<in> set (stock_transactions d).
            t \<in> set (stock_transactions d')
            \<or> (\<exists>uid. req = ProductsDelete uid (tx_product_id t) \<and> is_admin uid d)
            \<or> req = AccountDelete (tx_user_id t))
       \<and> (\<forall>t \<in> set (stock_transactions d').
            t \<in> set (stock_transactions d)
            \<or> (\<exists>uid c. req = StockTransactionsInsert uid (tx_id t) c \<and> is_active_user uid d
                  \<and> tx_created_at t = now))
       \<and> ((\<forall>uid pid. req \<noteq> ProductsDelete uid pid) \<and> (\<forall>target. req \<noteq> AccountDelete target)
            \<longrightarrow> (\<exists>ts. stock_transactions d' = stock_transactions d @ ts \<and> length ts \<le> 1))
       \<and> (\<forall>uid tid c. exec now (StockTransactionsUpdate uid tid c) d
              = (if col_ok int4_ok (s_quantity c) then Inr d else Inl OutOfRange))
       \<and> (\<forall>uid tid. exec now (StockTransactionsDelete uid tid) d = Inr d)"
proof -
  have a: "\<forall>t \<in> set (stock_transactions d).
            t \<in> set (stock_transactions d')
            \<or> (\<exists>uid. req = ProductsDelete uid (tx_product_id t) \<and> is_admin uid d)
            \<or> req = AccountDelete (tx_user_id t)"
    using exec_ledger_kept [OF assms] by blast
  have b: "\<forall>t \<in> set (stock_transactions d').
            t \<in> set (stock_transactions d)
            \<or> (\<exists>uid c. req = StockTransactionsInsert uid (tx_id t) c \<and> is_active_user uid d
                  \<and> tx_created_at t = now)"
    using exec_ledger_new [OF assms] by blast
  have c: "(\<forall>uid pid. req \<noteq> ProductsDelete uid pid) \<and> (\<forall>target. req \<noteq> AccountDelete target)
            \<longrightarrow> (\<exists>ts. stock_transactions d' = stock_transactions d @ ts \<and> length ts \<le> 1)"
    using exec_ledger_appends [OF assms] by blast
  have e: "\<forall>uid tid c. exec now (StockTransactionsUpdate uid tid c) d
              = (if col_ok int4_ok (s_quantity c) then Inr d else Inl OutOfRange)"
    "\<forall>uid tid. exec now (StockTransactionsDelete uid tid) d = Inr d"
    by (simp_all add: update_stock_transactions_def delete_from_stock_transactions_def)
  from a b c e show ?thesis by blast
qed

theorem ledger_rows_appended_or_cascaded_witness:
  "exec 10 (StockTransactionsInsert ''u-staff'' ''t-1'' demo_tx_cols) (demo_db 3)
     = Inr ((demo_db 3)\<lparr>stock_transactions := [demo_ledger_row ''t-1'' IN 5 10]\<rparr>)
   \<and> is_active_user ''u-staff'' (demo_db 3)
   \<and> (\<exists>ts. stock_transactions ((demo_db 3)\<lparr>stock_transactions := [demo_ledger_row ''t-1'' IN 5 10]\<rparr>)
              = stock_transactions (demo_db 3) @ ts \<and> length ts \<le> 1)
   \<and> exec 10 (StockTransactionsUpdate ''u-admin'' ''t-1'' demo_tx_cols) (demo_db 3) = Inr (demo_db 3)
   \<and> exec 10 (StockTransactionsDelete ''u-admin'' ''t-1'') (demo_db 3) = Inr (demo_db 3)"
proof -
  let ?D = "(demo_db 3)\<lparr>stock_transactions := [demo_ledger_row ''t-1'' IN 5 10]\<rparr>"
  let ?req = "StockTransactionsInsert ''u-staff'' ''t-1'' demo_tx_cols"
  have run: "exec 10 ?req (demo_db 3) = Inr ?D"
    by (simp add: insert_into_stock_transactions_def demo_tx_cols_def col_ok_def int4_ok_def
        is_active_user_def the_val_def demo_defs demo_move_defs)
  note T = ledger_rows_appended_or_cascaded [OF run]
  have row: "demo_ledger_row ''t-1'' IN 5 10 \<in> set (stock_transactions ?D)"
    "demo_ledger_row ''t-1'' IN 5 10 \<notin> set (stock_transactions (demo_db 3))"
    by (simp_all add: demo_db_def)
  from T row have "\<exists>uid c. ?req = StockTransactionsInsert uid (tx_id (demo_ledger_row ''t-1'' IN 5 10)) c
      \<and> is_active_user uid (demo_db 3)"
    by blast
  then have 1: "is_active_user ''u-staff'' (demo_db 3)"
    by auto
  from T have 2: "\<exists>ts. stock_transactions ?D = stock_transactions (demo_db 3) @ ts \<and> length ts \<le> 1"
    by blast
  have "col_ok int4_ok (s_quantity demo_tx_cols)"
    by (simp add: demo_tx_cols_def col_ok_def int4_ok_def)
  with T have 3: "exec 10 (StockTransactionsUpdate ''u-admin'' ''t-1'' demo_tx_cols) (demo_db 3)
      = Inr (demo_db 3)"
    by presburger
  from T have 4: "exec 10 (StockTransactionsDelete ''u-admin'' ''t-1'') (demo_db 3) = Inr (demo_db 3)"
    by blast
  from run 1 2 3 4 show ?thesis by blast
qed

end
